theory Spec2Isabelle
  imports Complex_Main "HOL-Library.Sublist"
begin

section \<open>Python values, exceptions and the operations the program applies to them\<close>

text \<open>
  The exceptions that the modelled code can raise.  A raise is the left injection of a sum;
  \<open>JSONDecodeError\<close> is the only one the program catches.
\<close>

datatype py_error = TypeError | KeyError | IndexError | JSONDecodeError | UnicodeDecodeError

text \<open>
  What \<open>json.loads\<close> returns: \<open>None\<close>, a bool, an int, a float, a str, a list or a dict.
  A dict is an association list read with \<open>map_of\<close> (a decoded dict holds every key once).
\<close>

datatype json =
    JNull
  | JBool bool
  | JInt int
  | JFloat real
  | JString string
  | JArray "json list"
  | JObject "(string \<times> json) list"

text \<open>Sequencing of computations that may raise.\<close>

fun and_then :: "py_error + 'a \<Rightarrow> ('a \<Rightarrow> py_error + 'b) \<Rightarrow> py_error + 'b" where
  "and_then (Inl e) f = Inl e"
| "and_then (Inr x) f = f x"

text \<open>Truth value of a decoded value, as \<open>if v:\<close> and \<open>and\<close> test it.\<close>

fun truthy :: "json \<Rightarrow> bool" where
  "truthy JNull = False"
| "truthy (JBool b) = b"
| "truthy (JInt i) = (i \<noteq> 0)"
| "truthy (JFloat x) = (x \<noteq> 0)"
| "truthy (JString s) = (s \<noteq> [])"
| "truthy (JArray xs) = (xs \<noteq> [])"
| "truthy (JObject kvs) = (kvs \<noteq> [])"

text \<open>
  \<open>k in v\<close> for a str \<open>k\<close>: key membership in a dict, element membership in a list,
  substring test in a str, and TypeError for \<open>None\<close>, bools and numbers.
\<close>

fun py_in :: "string \<Rightarrow> json \<Rightarrow> py_error + bool" where
  "py_in k (JObject kvs) = Inr (map_of kvs k \<noteq> None)"
| "py_in k (JArray xs) = Inr (JString k \<in> set xs)"
| "py_in k (JString s) = Inr (sublist k s)"
| "py_in k JNull = Inl TypeError"
| "py_in k (JBool b) = Inl TypeError"
| "py_in k (JInt i) = Inl TypeError"
| "py_in k (JFloat x) = Inl TypeError"

text \<open>\<open>v[k]\<close> for a str \<open>k\<close>: only a dict can be indexed by a str.\<close>

fun getitem :: "json \<Rightarrow> string \<Rightarrow> py_error + json" where
  "getitem (JObject kvs) k = (case map_of kvs k of None \<Rightarrow> Inl KeyError | Some v \<Rightarrow> Inr v)"
| "getitem JNull k = Inl TypeError"
| "getitem (JBool b) k = Inl TypeError"
| "getitem (JInt i) k = Inl TypeError"
| "getitem (JFloat x) k = Inl TypeError"
| "getitem (JString s) k = Inl TypeError"
| "getitem (JArray xs) k = Inl TypeError"

text \<open>
  \<open>v[0]\<close>: the first element of a list, the first character of a str (as a str of length
  one, here its first byte), KeyError for a dict (a decoded dict has str keys only), and
  TypeError otherwise.
\<close>

fun getitem0 :: "json \<Rightarrow> py_error + json" where
  "getitem0 (JArray xs) = (case xs of [] \<Rightarrow> Inl IndexError | x # _ \<Rightarrow> Inr x)"
| "getitem0 (JString s) = (case s of [] \<Rightarrow> Inl IndexError | c # _ \<Rightarrow> Inr (JString [c]))"
| "getitem0 (JObject kvs) = Inl KeyError"
| "getitem0 JNull = Inl TypeError"
| "getitem0 (JBool b) = Inl TypeError"
| "getitem0 (JInt i) = Inl TypeError"
| "getitem0 (JFloat x) = Inl TypeError"

text \<open>
  The guard \<open>'choices' in chunk and chunk['choices'] and key in chunk['choices'][0]\<close>,
  evaluated left to right with the short circuit of \<open>and\<close>.
\<close>

definition first_choice_has :: "string \<Rightarrow> json \<Rightarrow> py_error + bool" where
  "first_choice_has key chunk =
     and_then (py_in ''choices'' chunk) (\<lambda>has_choices.
       if \<not> has_choices then Inr False
       else and_then (getitem chunk ''choices'') (\<lambda>choices.
         if \<not> truthy choices then Inr False
         else and_then (getitem0 choices) (\<lambda>choice. py_in key choice)))"

text \<open>The expression \<open>chunk['choices'][0][key]\<close>.\<close>

definition first_choice_get :: "string \<Rightarrow> json \<Rightarrow> py_error + json" where
  "first_choice_get key chunk =
     and_then (getitem chunk ''choices'') (\<lambda>choices.
       and_then (getitem0 choices) (\<lambda>choice. getitem choice key))"

text \<open>
  A slice \<open>xs[i:]\<close>: a negative start counts from the end, and a start outside the list is
  clipped to it.
\<close>

definition slice_from :: "'a list \<Rightarrow> int \<Rightarrow> 'a list" where
  "slice_from xs i =
     (let n = int (length xs);
          start = (if i < 0 then max (n + i) 0 else min i n)
      in drop (nat start) xs)"

section \<open>The world outside the program\<close>

type_synonym timestamp = real

text \<open>One call of \<open>print\<close>, by what is printed.\<close>

datatype printed =
    PrintStr string
  | PrintValue json
  | PrintApiError string int
  | PrintDecodeError string

record message =
  role :: string
  content :: string

record request =
  url :: string
  headers :: "(string \<times> string) list"
  model :: string
  messages :: "message list"
  stream :: bool

text \<open>
  A response object: the status and body text the server sent, the lines that
  \<open>iter_lines()\<close> has not handed out yet, and whether \<open>close()\<close> has been called on it.
  Only the calls of \<open>close()\<close> that the program makes are recorded: what the HTTP library
  does with a connection whose body has been read, and what the runtime does with a
  response object that is dropped, is outside the model.
\<close>

record response =
  status_code :: int
  resp_text :: string
  iter_lines :: "string list"
  close_called :: bool

text \<open>
  The remote endpoints answer a request with a status, a body text and the lines of the
  stream; \<open>json.loads\<close> decodes a payload or raises.  Both are parameters of the model.
  A request always gets a reply and a stream is a finite list of lines: failures of the
  transport itself are not part of the model.
\<close>

type_synonym transport = "request \<Rightarrow> int \<times> string \<times> string list"

type_synonym loads = "string \<Rightarrow> py_error + json"

text \<open>
  The state outside the program's variables: what has been printed, the clock that
  \<open>time.time()\<close> reads (its successive readings, and how many were taken), the requests
  posted, and the response objects the stages are done with, as they left them.
\<close>

record world =
  stdout :: "printed list"
  clock :: "nat \<Rightarrow> timestamp"
  ticks :: nat
  posted :: "request list"
  responses :: "response list"

definition py_print :: "printed \<Rightarrow> world \<Rightarrow> world" where
  "py_print p w = w\<lparr>stdout := stdout w @ [p]\<rparr>"

definition time_time :: "world \<Rightarrow> timestamp \<times> world" where
  "time_time w = (clock w (ticks w), w\<lparr>ticks := Suc (ticks w)\<rparr>)"

definition requests_post :: "transport \<Rightarrow> request \<Rightarrow> world \<Rightarrow> response \<times> world" where
  "requests_post post req w =
     (case post req of (status, body, lines) \<Rightarrow>
        (\<lparr>status_code = status, resp_text = body, iter_lines = lines, close_called = False\<rparr>,
         w\<lparr>posted := posted w @ [req]\<rparr>))"

definition leave_response :: "response \<Rightarrow> world \<Rightarrow> world" where
  "leave_response r w = w\<lparr>responses := responses w @ [r]\<rparr>"

section \<open>Configuration\<close>

definition DEEPSEEK_API_KEY :: string where
  "DEEPSEEK_API_KEY = ''DEEPSEEK_API_KEY''"

definition DEEPSEEK_BASE_URL :: string where
  "DEEPSEEK_BASE_URL = ''https://ark.cn-beijing.volces.com/api/v3/chat/completions''"

definition OPENAI_API_KEY :: string where
  "OPENAI_API_KEY = ''OPENAI_API_KEY''"

definition OPENAI_BASE_URL :: string where
  "OPENAI_BASE_URL = ''https://api.openai.com/v1/chat/completions''"

definition CONVERSATION_MAX_HISTORY :: int where
  "CONVERSATION_MAX_HISTORY = 100"

section \<open>ConversationHistory\<close>

record interaction =
  user_query :: string
  reasoning :: string
  ai_response :: string
  timestamp :: timestamp

record ConversationHistory =
  history :: "interaction list"
  max_history :: int

definition init_history :: "int \<Rightarrow> ConversationHistory" where
  "init_history m = \<lparr>history = [], max_history = m\<rparr>"

definition add_interaction ::
  "ConversationHistory \<Rightarrow> string \<Rightarrow> string \<Rightarrow> string \<Rightarrow> world \<Rightarrow> ConversationHistory \<times> world" where
  "add_interaction self q r a w =
     (case time_time w of (now, w') \<Rightarrow>
        (let appended = history self @
               [\<lparr>user_query = q, reasoning = r, ai_response = a, timestamp = now\<rparr>]
         in (if int (length appended) > max_history self
             then self\<lparr>history := slice_from appended (- max_history self)\<rparr>
             else self\<lparr>history := appended\<rparr>,
             w')))"

text \<open>The loop of \<open>get_conversation_for_deepseek\<close> appends two messages per interaction.\<close>

definition append_interaction :: "interaction \<Rightarrow> message list \<Rightarrow> message list" where
  "append_interaction i msgs =
     (msgs @ [\<lparr>role = ''user'', content = user_query i\<rparr>])
       @ [\<lparr>role = ''assistant'', content = ai_response i\<rparr>]"

definition get_conversation_for_deepseek :: "ConversationHistory \<Rightarrow> message list" where
  "get_conversation_for_deepseek self = fold append_interaction (history self) []"

definition get_conversation_for_openai ::
  "ConversationHistory \<Rightarrow> string \<Rightarrow> string \<Rightarrow> message list" where
  "get_conversation_for_openai self current_query current_reasoning =
     fold append_interaction (history self)
       [\<lparr>role = ''system'',
         content = ''You are a helpful assistant. Use the provided reasoning to answer questions in context of the conversation history.''\<rparr>]
     @ [\<lparr>role = ''user'',
         content = ''Answer the following question: '' @ current_query
           @ ''\<newline>\<newline>According to the reasoning prompt: '' @ current_reasoning
           @ ''\<newline>\<newline>Based on this reasoning and our conversation history, provide your answer to the question.''\<rparr>]"

section \<open>The reasoning stage\<close>

text \<open>How one pass through a loop body ends: it falls through or continues, or it breaks.\<close>

datatype 'a flow = Continue 'a | Break 'a

fun flow_state :: "'a flow \<Rightarrow> 'a" where
  "flow_state (Continue s) = s"
| "flow_state (Break s) = s"

text \<open>The local variables of \<open>get_deepseek_reasoning_stream\<close> that the loop updates.\<close>

record reasoning_locals =
  reasoning_content :: string
  reasoning_finished :: bool
  last_reasoning_content_time :: "timestamp option"

text \<open>
  The check of \<open>finish_reason\<close>: the chunk has a first choice with that key, and its value
  is not \<open>None\<close>.
\<close>

definition finish_reason_set :: "json \<Rightarrow> py_error + bool" where
  "finish_reason_set chunk =
     and_then (first_choice_has ''finish_reason'' chunk) (\<lambda>has_key.
       if \<not> has_key then Inr False
       else and_then (first_choice_get ''finish_reason'' chunk) (\<lambda>v. Inr (v \<noteq> JNull)))"

text \<open>
  What the reasoning loop does with \<open>delta\<close>.  A \<open>reasoning_content\<close> key updates the time
  of the last reasoning content even when its value is empty; a non-empty value is printed
  and appended (appending anything but a str to a str raises TypeError, after the print).
  Otherwise a \<open>content\<close> key, once reasoning content has been seen, ends the loop with
  \<open>reasoning_finished\<close> set.
\<close>

definition reasoning_delta ::
  "json \<Rightarrow> reasoning_locals \<Rightarrow> world \<Rightarrow> (py_error + reasoning_locals flow) \<times> world" where
  "reasoning_delta delta s w =
     (case py_in ''reasoning_content'' delta of
        Inl e \<Rightarrow> (Inl e, w)
      | Inr True \<Rightarrow>
          (case time_time w of (now, w1) \<Rightarrow>
             (let s1 = s\<lparr>last_reasoning_content_time := Some now\<rparr> in
              case getitem delta ''reasoning_content'' of
                Inl e \<Rightarrow> (Inl e, w1)
              | Inr v \<Rightarrow>
                  if truthy v then
                    (let w2 = py_print (PrintValue v) w1 in
                     case v of
                       JString txt \<Rightarrow>
                         (Inr (Continue (s1\<lparr>reasoning_content := reasoning_content s1 @ txt\<rparr>)), w2)
                     | _ \<Rightarrow> (Inl TypeError, w2))
                  else (Inr (Continue s1), w1)))
      | Inr False \<Rightarrow>
          (case py_in ''content'' delta of
             Inl e \<Rightarrow> (Inl e, w)
           | Inr has_content \<Rightarrow>
               if has_content \<and> last_reasoning_content_time s \<noteq> None
               then (Inr (Break (s\<lparr>reasoning_finished := True\<rparr>)), w)
               else (Inr (Continue s), w)))"

text \<open>The body of the \<open>try\<close> once the payload is decoded.\<close>

definition reasoning_chunk ::
  "json \<Rightarrow> reasoning_locals \<Rightarrow> world \<Rightarrow> (py_error + reasoning_locals flow) \<times> world" where
  "reasoning_chunk chunk s w =
     (case finish_reason_set chunk of
        Inl e \<Rightarrow> (Inl e, w)
      | Inr True \<Rightarrow> (Inr (Break s), w)
      | Inr False \<Rightarrow>
          (case first_choice_has ''delta'' chunk of
             Inl e \<Rightarrow> (Inl e, w)
           | Inr False \<Rightarrow> (Inr (Continue s), w)
           | Inr True \<Rightarrow>
               (case first_choice_get ''delta'' chunk of
                  Inl e \<Rightarrow> (Inl e, w)
                | Inr delta \<Rightarrow> reasoning_delta delta s w)))"

text \<open>
  One line of the stream.  Empty lines and lines without the prefix are skipped, the
  payload \<open>[DONE]\<close> breaks, a payload that \<open>json.loads\<close> rejects with JSONDecodeError is
  reported and skipped; any other exception leaves the function.
\<close>

definition reasoning_body ::
  "loads \<Rightarrow> string \<Rightarrow> reasoning_locals \<Rightarrow> world \<Rightarrow> (py_error + reasoning_locals flow) \<times> world" where
  "reasoning_body loads line s w =
     (if line = [] then (Inr (Continue s), w)
      else if prefix ''data: '' line then
        (let payload = drop 6 line in
         if payload = ''[DONE]'' then (Inr (Break s), w)
         else
           (case loads payload of
              Inl e \<Rightarrow>
                if e = JSONDecodeError
                then (Inr (Continue s), py_print (PrintDecodeError payload) w)
                else (Inl e, w)
            | Inr chunk \<Rightarrow> reasoning_chunk chunk s w))
      else (Inr (Continue s), w))"

text \<open>
  The \<open>for\<close> loop over \<open>response.iter_lines()\<close>.  The result says how the loop was left
  (\<open>Continue\<close>: the lines ran out), with the lines that were never taken from the stream.
\<close>

fun reasoning_loop ::
  "loads \<Rightarrow> string list \<Rightarrow> reasoning_locals \<Rightarrow> world
    \<Rightarrow> (py_error + reasoning_locals flow) \<times> string list \<times> world" where
  "reasoning_loop loads [] s w = (Inr (Continue s), [], w)"
| "reasoning_loop loads (line # rest) s w =
     (case reasoning_body loads line s w of
        (Inl e, w') \<Rightarrow> (Inl e, rest, w')
      | (Inr (Break s'), w') \<Rightarrow> (Inr (Break s'), rest, w')
      | (Inr (Continue s'), w') \<Rightarrow> reasoning_loop loads rest s' w')"

definition deepseek_request :: "string \<Rightarrow> ConversationHistory option \<Rightarrow> request" where
  "deepseek_request prompt conversation_history =
     \<lparr>url = DEEPSEEK_BASE_URL,
      headers = [(''Content-Type'', ''application/json''),
                 (''Authorization'', ''Bearer '' @ DEEPSEEK_API_KEY)],
      model = ''deepseek-r1-250120'',
      messages =
        (case conversation_history of
           None \<Rightarrow> []
         | Some h \<Rightarrow> get_conversation_for_deepseek h)
        @ [\<lparr>role = ''user'', content = prompt\<rparr>],
      stream = True\<rparr>"

text \<open>
  The function returns \<open>None\<close> on a status other than 200, and the reasoning text otherwise.
  \<open>response.close()\<close> is called only when the loop set \<open>reasoning_finished\<close>.
\<close>

definition get_deepseek_reasoning_stream ::
  "transport \<Rightarrow> loads \<Rightarrow> string \<Rightarrow> ConversationHistory option \<Rightarrow> world
    \<Rightarrow> (py_error + string option) \<times> world" where
  "get_deepseek_reasoning_stream post loads prompt conversation_history w =
     (case requests_post post (deepseek_request prompt conversation_history)
             (py_print (PrintStr ''\<newline>DeepSeek reasoning content:'') w) of
        (response, w1) \<Rightarrow>
          if status_code response \<noteq> 200 then
            (Inr None,
             leave_response response
               (py_print (PrintStr (resp_text response))
                 (py_print (PrintApiError ''DeepSeek'' (status_code response)) w1)))
          else
            (case reasoning_loop loads (iter_lines response)
                    \<lparr>reasoning_content = [], reasoning_finished = False,
                     last_reasoning_content_time = None\<rparr> w1 of
               (Inl e, unread, w2) \<Rightarrow>
                 (Inl e, leave_response (response\<lparr>iter_lines := unread\<rparr>) w2)
             | (Inr fl, unread, w2) \<Rightarrow>
                 (let s = flow_state fl;
                      response1 = response\<lparr>iter_lines := unread\<rparr>;
                      response2 = (if reasoning_finished s
                                   then response1\<lparr>close_called := True\<rparr> else response1)
                  in (Inr (Some (reasoning_content s)),
                      leave_response response2 (py_print (PrintStr ''\<newline>'') w2)))))"

section \<open>The answer stage\<close>

text \<open>
  What the answer loop does with a decoded chunk: a non-empty \<open>content\<close> of the first
  choice's \<open>delta\<close> is printed and appended to the answer.  The accumulator is the only
  local the loop updates, and nothing in this loop looks at \<open>finish_reason\<close>.
\<close>

definition answer_chunk :: "json \<Rightarrow> string \<Rightarrow> world \<Rightarrow> (py_error + string flow) \<times> world" where
  "answer_chunk chunk complete_answer w =
     (case first_choice_has ''delta'' chunk of
        Inl e \<Rightarrow> (Inl e, w)
      | Inr False \<Rightarrow> (Inr (Continue complete_answer), w)
      | Inr True \<Rightarrow>
          (case first_choice_get ''delta'' chunk of
             Inl e \<Rightarrow> (Inl e, w)
           | Inr delta \<Rightarrow>
               (case py_in ''content'' delta of
                  Inl e \<Rightarrow> (Inl e, w)
                | Inr False \<Rightarrow> (Inr (Continue complete_answer), w)
                | Inr True \<Rightarrow>
                    (case getitem delta ''content'' of
                       Inl e \<Rightarrow> (Inl e, w)
                     | Inr v \<Rightarrow>
                         if truthy v then
                           (let w1 = py_print (PrintValue v) w in
                            case v of
                              JString txt \<Rightarrow> (Inr (Continue (complete_answer @ txt)), w1)
                            | _ \<Rightarrow> (Inl TypeError, w1))
                         else (Inr (Continue complete_answer), w)))))"

definition answer_body ::
  "loads \<Rightarrow> string \<Rightarrow> string \<Rightarrow> world \<Rightarrow> (py_error + string flow) \<times> world" where
  "answer_body loads line complete_answer w =
     (if line = [] then (Inr (Continue complete_answer), w)
      else if prefix ''data: '' line then
        (let payload = drop 6 line in
         if payload = ''[DONE]'' then (Inr (Break complete_answer), w)
         else
           (case loads payload of
              Inl e \<Rightarrow>
                if e = JSONDecodeError
                then (Inr (Continue complete_answer), py_print (PrintDecodeError payload) w)
                else (Inl e, w)
            | Inr chunk \<Rightarrow> answer_chunk chunk complete_answer w))
      else (Inr (Continue complete_answer), w))"

fun answer_loop ::
  "loads \<Rightarrow> string list \<Rightarrow> string \<Rightarrow> world \<Rightarrow> (py_error + string flow) \<times> string list \<times> world" where
  "answer_loop loads [] complete_answer w = (Inr (Continue complete_answer), [], w)"
| "answer_loop loads (line # rest) complete_answer w =
     (case answer_body loads line complete_answer w of
        (Inl e, w') \<Rightarrow> (Inl e, rest, w')
      | (Inr (Break a), w') \<Rightarrow> (Inr (Break a), rest, w')
      | (Inr (Continue a), w') \<Rightarrow> answer_loop loads rest a w')"

definition openai_request :: "string \<Rightarrow> string \<Rightarrow> ConversationHistory option \<Rightarrow> request" where
  "openai_request prompt reasoning_text conversation_history =
     \<lparr>url = OPENAI_BASE_URL,
      headers = [(''Content-Type'', ''application/json''),
                 (''Authorization'', ''Bearer '' @ OPENAI_API_KEY)],
      model = ''gpt-4o'',
      messages =
        (case conversation_history of
           Some h \<Rightarrow> get_conversation_for_openai h prompt reasoning_text
         | None \<Rightarrow>
            [\<lparr>role = ''system'', content = ''You are a helpful assistant.''\<rparr>,
             \<lparr>role = ''user'',
              content = ''Answer the following question: '' @ prompt
                @ ''\<newline>\<newline>According to the reasoning prompt: '' @ reasoning_text
                @ ''\<newline>\<newline>Based on this reasoning, provide your answer to the original question.''\<rparr>]),
      stream = True\<rparr>"

definition get_openai_answer_stream ::
  "transport \<Rightarrow> loads \<Rightarrow> string \<Rightarrow> string \<Rightarrow> ConversationHistory option \<Rightarrow> world
    \<Rightarrow> (py_error + string option) \<times> world" where
  "get_openai_answer_stream post loads prompt reasoning_text conversation_history w =
     (case requests_post post (openai_request prompt reasoning_text conversation_history)
             (py_print (PrintStr ''\<newline>GPT-4o Answer:'') w) of
        (response, w1) \<Rightarrow>
          if status_code response \<noteq> 200 then
            (Inr None,
             leave_response response
               (py_print (PrintStr (resp_text response))
                 (py_print (PrintApiError ''OpenAI'' (status_code response)) w1)))
          else
            (case answer_loop loads (iter_lines response) [] w1 of
               (Inl e, unread, w2) \<Rightarrow>
                 (Inl e, leave_response (response\<lparr>iter_lines := unread\<rparr>) w2)
             | (Inr fl, unread, w2) \<Rightarrow>
                 (Inr (Some (flow_state fl)),
                  leave_response (response\<lparr>iter_lines := unread\<rparr>)
                    (py_print (PrintStr ''\<newline>'') w2))))"

section \<open>One round\<close>

text \<open>
  \<open>process_question\<close> passes the history object to both stages (an object of a class
  without \<open>__bool__\<close> or \<open>__len__\<close> is true) and adds the interaction only after both
  returned a text.  The history is returned with the result, also when a stage raises.
\<close>

definition process_question ::
  "transport \<Rightarrow> loads \<Rightarrow> string \<Rightarrow> ConversationHistory \<Rightarrow> world
    \<Rightarrow> (py_error + bool) \<times> ConversationHistory \<times> world" where
  "process_question post loads user_prompt conversation_history w =
     (case get_deepseek_reasoning_stream post loads user_prompt (Some conversation_history)
             (py_print (PrintStr (''\<newline>Question: '' @ user_prompt)) w) of
        (Inl e, w1) \<Rightarrow> (Inl e, conversation_history, w1)
      | (Inr None, w1) \<Rightarrow>
          (Inr False, conversation_history,
           py_print (PrintStr ''Failed to get reasoning content from DeepSeek.'') w1)
      | (Inr (Some reasoning_text), w1) \<Rightarrow>
          (case get_openai_answer_stream post loads user_prompt reasoning_text
                  (Some conversation_history) w1 of
             (Inl e, w2) \<Rightarrow> (Inl e, conversation_history, w2)
           | (Inr None, w2) \<Rightarrow>
               (Inr False, conversation_history,
                py_print (PrintStr ''Failed to get answer from OpenAI.'') w2)
           | (Inr (Some gpt4o_answer), w2) \<Rightarrow>
               (case add_interaction conversation_history user_prompt reasoning_text
                       gpt4o_answer w2 of
                  (h', w3) \<Rightarrow> (Inr True, h', w3))))"

section \<open>Notions used to state the properties\<close>

subsection \<open>Histories\<close>

text \<open>The two messages that stand for one interaction in a context.\<close>

definition interaction_messages :: "interaction \<Rightarrow> message list" where
  "interaction_messages i =
     [\<lparr>role = ''user'', content = user_query i\<rparr>,
      \<lparr>role = ''assistant'', content = ai_response i\<rparr>]"

text \<open>A sequence of calls of \<open>add_interaction\<close>, one per triple (question, reasoning, answer).\<close>

fun commit_all ::
  "(string \<times> string \<times> string) list \<Rightarrow> ConversationHistory \<Rightarrow> world \<Rightarrow> ConversationHistory \<times> world" where
  "commit_all [] h w = (h, w)"
| "commit_all ((q, r, a) # cs) h w =
     (case add_interaction h q r a w of (h', w') \<Rightarrow> commit_all cs h' w')"

text \<open>The interactions these calls create when the clock is read at tick \<open>t\<close> first.\<close>

fun turns_made ::
  "(nat \<Rightarrow> timestamp) \<Rightarrow> nat \<Rightarrow> (string \<times> string \<times> string) list \<Rightarrow> interaction list" where
  "turns_made clk t [] = []"
| "turns_made clk t ((q, r, a) # cs) =
     \<lparr>user_query = q, reasoning = r, ai_response = a, timestamp = clk t\<rparr>
       # turns_made clk (Suc t) cs"

subsection \<open>Stream events\<close>

text \<open>
  The events of the specification, read off a decoded chunk of the wire format
  \<open>{choices: [{delta: {reasoning_content?, content?}, finish_reason?}]}\<close>.
  \<open>first_choice\<close> is the first element of \<open>choices\<close> when the chunk has that shape.
\<close>

fun first_choice :: "json \<Rightarrow> (string \<times> json) list option" where
  "first_choice (JObject kvs) =
     (case map_of kvs ''choices'' of Some (JArray (JObject c # cs)) \<Rightarrow> Some c | _ \<Rightarrow> None)"
| "first_choice _ = None"

definition no_finish :: "(string \<times> json) list \<Rightarrow> bool" where
  "no_finish c = (map_of c ''finish_reason'' = None \<or> map_of c ''finish_reason'' = Some JNull)"

text \<open>A payload that carries a reasoning text field and no finish indicator.\<close>

definition ReasoningDelta :: "json \<Rightarrow> string \<Rightarrow> bool" where
  "ReasoningDelta chunk txt =
     (case first_choice chunk of
        None \<Rightarrow> False
      | Some c \<Rightarrow> no_finish c \<and>
          (case map_of c ''delta'' of
             Some (JObject d) \<Rightarrow> map_of d ''reasoning_content'' = Some (JString txt)
           | _ \<Rightarrow> False))"

text \<open>A payload that carries a content text field, no reasoning field and no finish indicator.\<close>

definition AnswerDelta :: "json \<Rightarrow> string \<Rightarrow> bool" where
  "AnswerDelta chunk txt =
     (case first_choice chunk of
        None \<Rightarrow> False
      | Some c \<Rightarrow> no_finish c \<and>
          (case map_of c ''delta'' of
             Some (JObject d) \<Rightarrow>
               map_of d ''reasoning_content'' = None \<and> map_of d ''content'' = Some (JString txt)
           | _ \<Rightarrow> False))"

text \<open>A payload whose first choice has a \<open>finish_reason\<close> that is not null.\<close>

definition FinishSignal :: "json \<Rightarrow> bool" where
  "FinishSignal chunk =
     (case first_choice chunk of
        None \<Rightarrow> False
      | Some c \<Rightarrow> (case map_of c ''finish_reason'' of None \<Rightarrow> False | Some v \<Rightarrow> v \<noteq> JNull))"

text \<open>
  A line that carries the chunk: the marker, then a payload other than the sentinel that
  decodes to it.  A malformed line is one whose payload \<open>json.loads\<close> rejects.  A skipped
  line is empty or lacks the marker, and gives no event.
\<close>

definition event_line :: "loads \<Rightarrow> string \<Rightarrow> json \<Rightarrow> bool" where
  "event_line loads line chunk =
     (prefix ''data: '' line \<and> drop 6 line \<noteq> ''[DONE]'' \<and> loads (drop 6 line) = Inr chunk)"

definition malformed_line :: "loads \<Rightarrow> string \<Rightarrow> bool" where
  "malformed_line loads line =
     (prefix ''data: '' line \<and> drop 6 line \<noteq> ''[DONE]''
      \<and> loads (drop 6 line) = Inl JSONDecodeError)"

definition skipped_line :: "string \<Rightarrow> bool" where
  "skipped_line line = (line = [] \<or> \<not> prefix ''data: '' line)"

fun all_skipped :: "string list \<Rightarrow> bool" where
  "all_skipped [] = True"
| "all_skipped (l # ls) = (skipped_line l \<and> all_skipped ls)"

text \<open>What printing a delta text adds to the output: nothing when the text is empty.\<close>

definition shown :: "string \<Rightarrow> world \<Rightarrow> world" where
  "shown txt w = (if txt = [] then w else py_print (PrintValue (JString txt)) w)"

text \<open>
  The text that the \<open>delta\<close> of a first choice carries as content, when the delta is
  absent or has the wire shape.
\<close>

fun delta_text :: "(string \<times> json) list \<Rightarrow> string option" where
  "delta_text choice =
     (case map_of choice ''delta'' of
        None \<Rightarrow> Some []
      | Some (JObject d) \<Rightarrow>
          (case map_of d ''content'' of
             None \<Rightarrow> Some []
           | Some (JString txt) \<Rightarrow> Some txt
           | Some _ \<Rightarrow> None)
      | Some _ \<Rightarrow> None)"

definition delta_output :: "string \<Rightarrow> printed list" where
  "delta_output txt = (if txt = [] then [] else [PrintValue (JString txt)])"

subsection \<open>Sample inputs\<close>

text \<open>
  The values of \<open>json.loads\<close> on the payloads of the examples below.  The payload of the
  single byte 0xFF is not UTF-8, and decoding it raises UnicodeDecodeError; any other
  payload of the examples is not JSON.
\<close>

definition delta_chunk :: "string \<Rightarrow> string \<Rightarrow> json" where
  "delta_chunk key txt =
     JObject [(''choices'', JArray [JObject [(''delta'', JObject [(key, JString txt)])]])]"

definition stop_chunk :: json where
  "stop_chunk =
     JObject [(''choices'',
       JArray [JObject [(''delta'', JObject []), (''finish_reason'', JString ''stop'')]])]"

definition sample_loads :: loads where
  \<open>sample_loads payload =
     (if payload = ''{"choices":[{"delta":{"reasoning_content":"a"}}]}''
        then Inr (delta_chunk ''reasoning_content'' ''a'')
      else if payload = ''{"choices":[{"delta":{"reasoning_content":"b"}}]}''
        then Inr (delta_chunk ''reasoning_content'' ''b'')
      else if payload = ''{"choices":[{"delta":{"reasoning_content":""}}]}''
        then Inr (delta_chunk ''reasoning_content'' [])
      else if payload = ''{"choices":[{"delta":{"content":"x"}}]}''
        then Inr (delta_chunk ''content'' ''x'')
      else if payload = ''{"choices":[{"delta":{"content":"y"}}]}''
        then Inr (delta_chunk ''content'' ''y'')
      else if payload = ''{"choices":[{"delta":{},"finish_reason":"stop"}]}''
        then Inr stop_chunk
      else if payload = [CHR 0xFF]
        then Inl UnicodeDecodeError
      else Inl JSONDecodeError)\<close>

definition line_ra :: string where
  \<open>line_ra = ''data: {"choices":[{"delta":{"reasoning_content":"a"}}]}''\<close>

definition line_rb :: string where
  \<open>line_rb = ''data: {"choices":[{"delta":{"reasoning_content":"b"}}]}''\<close>

definition line_r_empty :: string where
  \<open>line_r_empty = ''data: {"choices":[{"delta":{"reasoning_content":""}}]}''\<close>

definition line_cx :: string where
  \<open>line_cx = ''data: {"choices":[{"delta":{"content":"x"}}]}''\<close>

definition line_cy :: string where
  \<open>line_cy = ''data: {"choices":[{"delta":{"content":"y"}}]}''\<close>

definition line_stop :: string where
  \<open>line_stop = ''data: {"choices":[{"delta":{},"finish_reason":"stop"}]}''\<close>

definition line_bad :: string where
  \<open>line_bad = ''data: {"choices":[{"delta":''\<close>

definition line_not_utf8 :: string where
  "line_not_utf8 = ''data: '' @ [CHR 0xFF]"

definition line_done :: string where
  "line_done = ''data: [DONE]''"

text \<open>Two endpoints: the first reply is the reasoning endpoint's, the second the other's.\<close>

definition endpoints ::
  "int \<times> string \<times> string list \<Rightarrow> int \<times> string \<times> string list \<Rightarrow> transport" where
  "endpoints reasoning_reply answer_reply req =
     (if url req = DEEPSEEK_BASE_URL then reasoning_reply else answer_reply)"

definition world0 :: world where
  "world0 = \<lparr>stdout = [], clock = (\<lambda>n. real n), ticks = 0, posted = [], responses = []\<rparr>"

subsection \<open>Stages\<close>

text \<open>
  The locals at the start of the reasoning loop, and the world when a stage enters its
  loop: it has printed its heading and posted its request.  Two worlds have the same
  network state when the same requests were posted and the same responses were left.
\<close>

definition reasoning_start :: reasoning_locals where
  "reasoning_start =
     \<lparr>reasoning_content = [], reasoning_finished = False, last_reasoning_content_time = None\<rparr>"

definition stage_world :: "string \<Rightarrow> request \<Rightarrow> world \<Rightarrow> world" where
  "stage_world heading req w = (py_print (PrintStr heading) w)\<lparr>posted := posted w @ [req]\<rparr>"

definition same_net :: "world \<Rightarrow> world \<Rightarrow> bool" where
  "same_net w w' = (posted w' = posted w \<and> responses w' = responses w)"

section \<open>Python slices and the history\<close>

lemma slice_from_neg:
  "0 < m \<Longrightarrow> slice_from xs (- m) = drop (length xs - nat m) xs"
  by (simp add: slice_from_def Let_def max_def nat_diff_distrib')

lemma add_interaction_pos:
  assumes "0 < max_history h"
  shows "add_interaction h q r a w =
           (h\<lparr>history := drop (Suc (length (history h)) - nat (max_history h))
                 (history h @ [\<lparr>user_query = q, reasoning = r, ai_response = a,
                                timestamp = clock w (ticks w)\<rparr>])\<rparr>,
            w\<lparr>ticks := Suc (ticks w)\<rparr>)"
proof -
  let ?app = "history h @ [\<lparr>user_query = q, reasoning = r, ai_response = a,
                                timestamp = clock w (ticks w)\<rparr>]"
  show ?thesis
  proof (cases "int (length ?app) > max_history h")
    case True
    then show ?thesis
      using assms by (simp add: add_interaction_def time_time_def slice_from_neg)
  next
    case False
    then have "Suc (length (history h)) - nat (max_history h) = 0" by simp
    with False show ?thesis
      by (simp add: add_interaction_def time_time_def)
  qed
qed

lemma drop_step:
  assumes "length xs \<le> m" and "0 < m"
  shows "drop (length (drop (Suc (length xs) - m) (xs @ [t])) + n - m)
            (drop (Suc (length xs) - m) (xs @ [t]) @ ys)
         = drop (length xs + Suc n - m) (xs @ t # ys)"
proof (cases "length xs < m")
  case True
  then have "Suc (length xs) - m = 0" by simp
  then show ?thesis by simp
next
  case False
  with assms have len: "length xs = m" by simp
  then have one: "Suc (length xs) - m = 1" by simp
  from len assms(2) obtain x xs' where xs: "xs = x # xs'" by (cases xs) auto
  have "drop (length (drop 1 (xs @ [t])) + n - m) (drop 1 (xs @ [t]) @ ys)
          = drop n (xs' @ t # ys)"
    using len xs by simp
  also have "\<dots> = drop (length xs + Suc n - m) (xs @ t # ys)"
    using len xs by simp
  finally show ?thesis by (simp only: one)
qed

lemma commit_all_pos:
  assumes "0 < max_history h" and "length (history h) \<le> nat (max_history h)"
  shows "fst (commit_all cs h w) =
           h\<lparr>history := drop (length (history h) + length cs - nat (max_history h))
                 (history h @ turns_made (clock w) (ticks w) cs)\<rparr>"
  using assms
proof (induction cs arbitrary: h w)
  case Nil
  then show ?case by simp
next
  case (Cons c cs)
  obtain q r a where c: "c = (q, r, a)" by (cases c)
  let ?t = "\<lparr>user_query = q, reasoning = r, ai_response = a, timestamp = clock w (ticks w)\<rparr>"
  let ?m = "nat (max_history h)"
  let ?h' = "h\<lparr>history := drop (Suc (length (history h)) - ?m) (history h @ [?t])\<rparr>"
  let ?w' = "w\<lparr>ticks := Suc (ticks w)\<rparr>"
  have step: "add_interaction h q r a w = (?h', ?w')"
    by (rule add_interaction_pos) (rule Cons.prems)
  have m: "0 < ?m" using Cons.prems by simp
  have len': "length (history ?h') \<le> nat (max_history ?h')"
    using Cons.prems by simp
  have "fst (commit_all (c # cs) h w) = fst (commit_all cs ?h' ?w')"
    by (simp add: c step)
  also have "\<dots> = ?h'\<lparr>history := drop (length (history ?h') + length cs - nat (max_history ?h'))
                 (history ?h' @ turns_made (clock ?w') (ticks ?w') cs)\<rparr>"
    by (rule Cons.IH) (use Cons.prems len' in simp_all)
  also have "\<dots> = h\<lparr>history := drop (length (history h) + length (c # cs) - ?m)
                 (history h @ turns_made (clock w) (ticks w) (c # cs))\<rparr>"
    using drop_step [OF Cons.prems(2) m, of ?t "length cs" "turns_made (clock w) (Suc (ticks w)) cs"]
    by (simp add: c)
  finally show ?case .
qed

lemma length_turns_made: "length (turns_made clk t cs) = length cs"
  by (induction clk t cs rule: turns_made.induct) simp_all

lemma history_bounded:
  assumes "0 < max_history h" and "length (history h) \<le> nat (max_history h)"
  shows "length (history (fst (commit_all cs h w))) \<le> nat (max_history h)"
  by (simp add: commit_all_pos [OF assms] length_turns_made)

lemma history_fifo:
  assumes "0 < max_history h" and "length (history h) \<le> nat (max_history h)"
    and "nat (max_history h) < length cs"
  shows "history (fst (commit_all cs h w)) =
           drop (length cs - nat (max_history h)) (turns_made (clock w) (ticks w) cs)"
proof -
  have "length (history h) + length cs - nat (max_history h)
          = length (history h) + (length cs - nat (max_history h))"
    using assms(3) by simp
  then show ?thesis
    by (simp add: commit_all_pos [OF assms(1,2)])
qed

lemma fold_append_interaction:
  "fold append_interaction xs acc = acc @ concat (map interaction_messages xs)"
  by (induction xs arbitrary: acc) (simp_all add: append_interaction_def interaction_messages_def)

lemma interaction_messages_roles:
  "''system'' \<notin> set (map role (concat (map interaction_messages xs)))"
  by (induction xs) (simp_all add: interaction_messages_def)

lemma interaction_messages_reasoning:
  "interaction_messages (i\<lparr>reasoning := r\<rparr>) = interaction_messages i"
  by (simp add: interaction_messages_def)

lemma interaction_messages_forget:
  "concat (map (\<lambda>i. interaction_messages (i\<lparr>reasoning := f i\<rparr>)) xs)
     = concat (map interaction_messages xs)"
  by (induction xs) (simp_all add: interaction_messages_def)

section \<open>What the loops do with each kind of line\<close>

lemma first_choice_shape:
  assumes "first_choice chunk = Some c"
  obtains kvs cs where "chunk = JObject kvs" and "map_of kvs ''choices'' = Some (JArray (JObject c # cs))"
  using assms by (cases chunk) (auto split: option.splits json.splits list.splits)

lemma has_key_of_shape:
  assumes "first_choice chunk = Some c"
  shows "first_choice_has key chunk = Inr (map_of c key \<noteq> None)"
proof -
  from assms obtain kvs cs where "chunk = JObject kvs"
    and "map_of kvs ''choices'' = Some (JArray (JObject c # cs))"
    by (rule first_choice_shape)
  then show ?thesis by (simp add: first_choice_has_def)
qed

lemma get_key_of_shape:
  assumes "first_choice chunk = Some c"
  shows "first_choice_get key chunk = (case map_of c key of None \<Rightarrow> Inl KeyError | Some v \<Rightarrow> Inr v)"
proof -
  from assms obtain kvs cs where "chunk = JObject kvs"
    and "map_of kvs ''choices'' = Some (JArray (JObject c # cs))"
    by (rule first_choice_shape)
  then show ?thesis by (simp add: first_choice_get_def)
qed

lemma finish_reason_set_of_shape:
  assumes "first_choice chunk = Some c"
  shows "finish_reason_set chunk =
           Inr (case map_of c ''finish_reason'' of None \<Rightarrow> False | Some v \<Rightarrow> v \<noteq> JNull)"
  by (simp add: finish_reason_set_def has_key_of_shape [OF assms] get_key_of_shape [OF assms]
        split: option.splits)

lemma ReasoningDelta_shape:
  assumes "ReasoningDelta chunk txt"
  obtains c d where "first_choice chunk = Some c" and "no_finish c"
    and "map_of c ''delta'' = Some (JObject d)"
    and "map_of d ''reasoning_content'' = Some (JString txt)"
  using assms unfolding ReasoningDelta_def
  by (auto split: option.splits json.splits)

lemma AnswerDelta_shape:
  assumes "AnswerDelta chunk txt"
  obtains c d where "first_choice chunk = Some c" and "no_finish c"
    and "map_of c ''delta'' = Some (JObject d)"
    and "map_of d ''reasoning_content'' = None"
    and "map_of d ''content'' = Some (JString txt)"
  using assms unfolding AnswerDelta_def
  by (auto split: option.splits json.splits)

lemma finish_reason_set_no_finish:
  assumes "first_choice chunk = Some c" and "no_finish c"
  shows "finish_reason_set chunk = Inr False"
  using assms(2) by (auto simp: finish_reason_set_of_shape [OF assms(1)] no_finish_def)

lemma reasoning_chunk_ReasoningDelta:
  assumes "ReasoningDelta chunk txt"
  shows "reasoning_chunk chunk s w =
           (Inr (Continue (s\<lparr>last_reasoning_content_time := Some (clock w (ticks w)),
                             reasoning_content := reasoning_content s @ txt\<rparr>)),
            shown txt (w\<lparr>ticks := Suc (ticks w)\<rparr>))"
proof -
  from assms obtain c d where c: "first_choice chunk = Some c" and nf: "no_finish c"
    and d: "map_of c ''delta'' = Some (JObject d)"
    and rc: "map_of d ''reasoning_content'' = Some (JString txt)"
    by (rule ReasoningDelta_shape)
  show ?thesis
    by (simp add: reasoning_chunk_def finish_reason_set_no_finish [OF c nf]
          has_key_of_shape [OF c] get_key_of_shape [OF c] d reasoning_delta_def rc
          time_time_def Let_def shown_def)
qed

lemma reasoning_chunk_AnswerDelta:
  assumes "AnswerDelta chunk txt"
  shows "reasoning_chunk chunk s w =
           (if last_reasoning_content_time s \<noteq> None
            then (Inr (Break (s\<lparr>reasoning_finished := True\<rparr>)), w)
            else (Inr (Continue s), w))"
proof -
  from assms obtain c d where c: "first_choice chunk = Some c" and nf: "no_finish c"
    and d: "map_of c ''delta'' = Some (JObject d)"
    and rc: "map_of d ''reasoning_content'' = None"
    and ct: "map_of d ''content'' = Some (JString txt)"
    by (rule AnswerDelta_shape)
  show ?thesis
    by (simp add: reasoning_chunk_def finish_reason_set_no_finish [OF c nf]
          has_key_of_shape [OF c] get_key_of_shape [OF c] d reasoning_delta_def rc ct)
qed

lemma reasoning_chunk_FinishSignal:
  assumes "FinishSignal chunk"
  shows "reasoning_chunk chunk s w = (Inr (Break s), w)"
proof -
  from assms obtain c where c: "first_choice chunk = Some c"
    and "(case map_of c ''finish_reason'' of None \<Rightarrow> False | Some v \<Rightarrow> v \<noteq> JNull)"
    unfolding FinishSignal_def by (auto split: option.splits)
  then show ?thesis
    by (simp add: reasoning_chunk_def finish_reason_set_of_shape [OF c])
qed

lemma event_line_nonempty: "event_line loads line chunk \<Longrightarrow> line \<noteq> []"
  by (auto simp: event_line_def)

lemma reasoning_body_event:
  assumes "event_line loads line chunk"
  shows "reasoning_body loads line s w = reasoning_chunk chunk s w"
  using assms event_line_nonempty [OF assms]
  by (simp add: reasoning_body_def event_line_def Let_def)

lemma answer_body_event:
  assumes "event_line loads line chunk"
  shows "answer_body loads line a w = answer_chunk chunk a w"
  using assms event_line_nonempty [OF assms]
  by (simp add: answer_body_def event_line_def Let_def)

lemma answer_body_malformed:
  assumes "malformed_line loads line"
  shows "answer_body loads line a w = (Inr (Continue a), py_print (PrintDecodeError (drop 6 line)) w)"
proof -
  from assms have "line \<noteq> []" by (auto simp: malformed_line_def)
  with assms show ?thesis by (simp add: answer_body_def malformed_line_def Let_def)
qed

lemma reasoning_body_malformed:
  assumes "malformed_line loads line"
  shows "reasoning_body loads line s w = (Inr (Continue s), py_print (PrintDecodeError (drop 6 line)) w)"
proof -
  from assms have "line \<noteq> []" by (auto simp: malformed_line_def)
  with assms show ?thesis by (simp add: reasoning_body_def malformed_line_def Let_def)
qed

lemma answer_chunk_AnswerDelta:
  assumes "AnswerDelta chunk txt"
  shows "answer_chunk chunk a w = (Inr (Continue (a @ txt)), shown txt w)"
proof -
  from assms obtain c d where c: "first_choice chunk = Some c" and nf: "no_finish c"
    and d: "map_of c ''delta'' = Some (JObject d)"
    and rc: "map_of d ''reasoning_content'' = None"
    and ct: "map_of d ''content'' = Some (JString txt)"
    by (rule AnswerDelta_shape)
  show ?thesis
    by (simp add: answer_chunk_def has_key_of_shape [OF c] get_key_of_shape [OF c] d ct Let_def
          shown_def)
qed

lemma reasoning_body_skipped:
  "skipped_line line \<Longrightarrow> reasoning_body loads line s w = (Inr (Continue s), w)"
  by (auto simp: reasoning_body_def skipped_line_def)

lemma answer_body_skipped:
  "skipped_line line \<Longrightarrow> answer_body loads line a w = (Inr (Continue a), w)"
  by (auto simp: answer_body_def skipped_line_def)

lemma reasoning_body_done: "reasoning_body loads ''data: [DONE]'' s w = (Inr (Break s), w)"
  by (simp add: reasoning_body_def)

lemma answer_body_done: "answer_body loads ''data: [DONE]'' a w = (Inr (Break a), w)"
  by (simp add: answer_body_def)

lemma reasoning_loop_skip:
  "all_skipped sk \<Longrightarrow> reasoning_loop loads (sk @ ls) s w = reasoning_loop loads ls s w"
  by (induction sk) (simp_all add: reasoning_body_skipped)

lemma answer_loop_skip:
  "all_skipped sk \<Longrightarrow> answer_loop loads (sk @ ls) a w = answer_loop loads ls a w"
  by (induction sk) (simp_all add: answer_body_skipped)

lemma reasoning_loop_append:
  "reasoning_loop loads pre s w = (Inr (Continue s'), u, w')
     \<Longrightarrow> reasoning_loop loads (pre @ ls) s w = reasoning_loop loads ls s' w'"
proof (induction pre arbitrary: s w)
  case Nil
  then show ?case by simp
next
  case (Cons l pre)
  then show ?case
    by (cases "reasoning_body loads l s w") (auto split: sum.splits flow.splits)
qed

lemma answer_loop_append:
  "answer_loop loads pre a w = (Inr (Continue a'), u, w')
     \<Longrightarrow> answer_loop loads (pre @ ls) a w = answer_loop loads ls a' w'"
proof (induction pre arbitrary: a w)
  case Nil
  then show ?case by simp
next
  case (Cons l pre)
  then show ?case
    by (cases "answer_body loads l a w") (auto split: sum.splits flow.splits)
qed

text \<open>The loops print and read the clock; they post nothing and leave no response.\<close>

lemma reasoning_delta_net: "same_net w (snd (reasoning_delta delta s w))"
  by (auto simp: reasoning_delta_def same_net_def py_print_def time_time_def Let_def
        split: sum.splits bool.splits json.splits)

lemma reasoning_chunk_net: "same_net w (snd (reasoning_chunk chunk s w))"
  using reasoning_delta_net
  by (auto simp: reasoning_chunk_def same_net_def split: sum.splits bool.splits)

lemma reasoning_body_net: "same_net w (snd (reasoning_body loads line s w))"
  using reasoning_chunk_net
  by (auto simp: reasoning_body_def same_net_def py_print_def Let_def split: sum.splits)

lemma reasoning_loop_net: "same_net w (snd (snd (reasoning_loop loads ls s w)))"
proof (induction ls arbitrary: s w)
  case Nil
  then show ?case by (simp add: same_net_def)
next
  case (Cons l ls)
  obtain r w1 where b: "reasoning_body loads l s w = (r, w1)" by (cases "reasoning_body loads l s w")
  have n1: "same_net w w1" using reasoning_body_net [of w loads l s] by (simp add: b)
  show ?case
  proof (cases r)
    case (Inl e)
    then show ?thesis using n1 by (simp add: b)
  next
    case (Inr fl)
    show ?thesis
    proof (cases fl)
      case (Continue s')
      with Inr n1 Cons.IH [where s = s' and w = w1] show ?thesis by (simp add: b same_net_def)
    next
      case (Break s')
      with Inr n1 show ?thesis by (simp add: b)
    qed
  qed
qed

lemma answer_chunk_net: "same_net w (snd (answer_chunk chunk a w))"
  by (auto simp: answer_chunk_def same_net_def py_print_def Let_def
        split: sum.splits bool.splits json.splits)

lemma answer_body_net: "same_net w (snd (answer_body loads line a w))"
  using answer_chunk_net
  by (auto simp: answer_body_def same_net_def py_print_def Let_def split: sum.splits)

lemma answer_loop_net: "same_net w (snd (snd (answer_loop loads ls a w)))"
proof (induction ls arbitrary: a w)
  case Nil
  then show ?case by (simp add: same_net_def)
next
  case (Cons l ls)
  obtain r w1 where b: "answer_body loads l a w = (r, w1)" by (cases "answer_body loads l a w")
  have n1: "same_net w w1" using answer_body_net [of w loads l a] by (simp add: b)
  show ?case
  proof (cases r)
    case (Inl e)
    then show ?thesis using n1 by (simp add: b)
  next
    case (Inr fl)
    show ?thesis
    proof (cases fl)
      case (Continue a')
      with Inr n1 Cons.IH [where a = a' and w = w1] show ?thesis by (simp add: b same_net_def)
    next
      case (Break a')
      with Inr n1 show ?thesis by (simp add: b)
    qed
  qed
qed

section \<open>The reasoning loop and stage, by kind of line\<close>

lemma reasoning_loop_ReasoningDelta:
  assumes "event_line loads l c" and "ReasoningDelta c txt"
  shows "reasoning_loop loads (l # ls) s w =
           reasoning_loop loads ls
             (s\<lparr>last_reasoning_content_time := Some (clock w (ticks w)),
                reasoning_content := reasoning_content s @ txt\<rparr>)
             (shown txt (w\<lparr>ticks := Suc (ticks w)\<rparr>))"
  by (simp add: reasoning_body_event [OF assms(1)] reasoning_chunk_ReasoningDelta [OF assms(2)])

lemma reasoning_loop_AnswerDelta_seen:
  assumes "event_line loads l c" and "AnswerDelta c txt"
    and "last_reasoning_content_time s \<noteq> None"
  shows "reasoning_loop loads (l # ls) s w = (Inr (Break (s\<lparr>reasoning_finished := True\<rparr>)), ls, w)"
  using assms(3)
  by (simp add: reasoning_body_event [OF assms(1)] reasoning_chunk_AnswerDelta [OF assms(2)])

lemma reasoning_loop_AnswerDelta_unseen:
  assumes "event_line loads l c" and "AnswerDelta c txt"
    and "last_reasoning_content_time s = None"
  shows "reasoning_loop loads (l # ls) s w = reasoning_loop loads ls s w"
  using assms(3)
  by (simp add: reasoning_body_event [OF assms(1)] reasoning_chunk_AnswerDelta [OF assms(2)])

lemma reasoning_loop_done:
  "reasoning_loop loads (''data: [DONE]'' # ls) s w = (Inr (Break s), ls, w)"
  by (simp add: reasoning_body_done)

lemma reasoning_loop_FinishSignal:
  assumes "event_line loads l c" and "FinishSignal c"
  shows "reasoning_loop loads (l # ls) s w = (Inr (Break s), ls, w)"
  by (simp add: reasoning_body_event [OF assms(1)] reasoning_chunk_FinishSignal [OF assms(2)])

lemma same_net_shown: "same_net w (shown txt w)"
  by (simp add: same_net_def shown_def py_print_def)

lemma reasoning_stage_200:
  assumes "post (deepseek_request prompt hist) = (200, body, lines)"
    and "reasoning_loop loads lines reasoning_start
           (stage_world ''\<newline>DeepSeek reasoning content:'' (deepseek_request prompt hist) w)
         = (Inr fl, unread, w2)"
  shows "get_deepseek_reasoning_stream post loads prompt hist w =
           (Inr (Some (reasoning_content (flow_state fl))),
            leave_response
              \<lparr>status_code = 200, resp_text = body, iter_lines = unread,
               close_called = reasoning_finished (flow_state fl)\<rparr>
              (py_print (PrintStr ''\<newline>'') w2))"
  using assms
  by (simp add: get_deepseek_reasoning_stream_def requests_post_def stage_world_def
        reasoning_start_def py_print_def Let_def)

lemma reasoning_stage_200_raise:
  assumes "post (deepseek_request prompt hist) = (200, body, lines)"
    and "reasoning_loop loads lines reasoning_start
           (stage_world ''\<newline>DeepSeek reasoning content:'' (deepseek_request prompt hist) w)
         = (Inl e, unread, w2)"
  shows "get_deepseek_reasoning_stream post loads prompt hist w =
           (Inl e,
            leave_response
              \<lparr>status_code = 200, resp_text = body, iter_lines = unread, close_called = False\<rparr>
              w2)"
  using assms
  by (simp add: get_deepseek_reasoning_stream_def requests_post_def stage_world_def
        reasoning_start_def py_print_def Let_def)

lemma reasoning_stage_failed:
  assumes "post (deepseek_request prompt hist) = (status, body, lines)" and "status \<noteq> 200"
  shows "get_deepseek_reasoning_stream post loads prompt hist w =
           (Inr None,
            leave_response
              \<lparr>status_code = status, resp_text = body, iter_lines = lines, close_called = False\<rparr>
              (py_print (PrintStr body)
                (py_print (PrintApiError ''DeepSeek'' status)
                  (stage_world ''\<newline>DeepSeek reasoning content:''
                     (deepseek_request prompt hist) w))))"
  using assms
  by (simp add: get_deepseek_reasoning_stream_def requests_post_def stage_world_def
        py_print_def Let_def)

lemma stage_world_net:
  "posted (stage_world heading req w) = posted w @ [req]"
  "responses (stage_world heading req w) = responses w"
  by (simp_all add: stage_world_def py_print_def)

section \<open>The answer loop and stage, by kind of line\<close>

lemma stdout_shown: "stdout (shown txt w) = stdout w @ delta_output txt"
  by (simp add: shown_def delta_output_def py_print_def)

lemma answer_loop_AnswerDelta:
  assumes "event_line loads l c" and "AnswerDelta c txt"
  shows "answer_loop loads (l # ls) a w = answer_loop loads ls (a @ txt) (shown txt w)"
  by (simp add: answer_body_event [OF assms(1)] answer_chunk_AnswerDelta [OF assms(2)])

lemma answer_loop_malformed:
  assumes "malformed_line loads l"
  shows "answer_loop loads (l # ls) a w =
           answer_loop loads ls a (py_print (PrintDecodeError (drop 6 l)) w)"
  by (simp add: answer_body_malformed [OF assms])

lemma answer_loop_done:
  "answer_loop loads (''data: [DONE]'' # ls) a w = (Inr (Break a), ls, w)"
  by (simp add: answer_body_done)

lemma answer_stage_200:
  assumes "post (openai_request prompt r hist) = (200, body, lines)"
    and "answer_loop loads lines []
           (stage_world ''\<newline>GPT-4o Answer:'' (openai_request prompt r hist) w)
         = (Inr fl, unread, w2)"
  shows "get_openai_answer_stream post loads prompt r hist w =
           (Inr (Some (flow_state fl)),
            leave_response
              \<lparr>status_code = 200, resp_text = body, iter_lines = unread, close_called = False\<rparr>
              (py_print (PrintStr ''\<newline>'') w2))"
  using assms
  by (simp add: get_openai_answer_stream_def requests_post_def stage_world_def py_print_def)

lemma answer_stage_200_raise:
  assumes "post (openai_request prompt r hist) = (200, body, lines)"
    and "answer_loop loads lines []
           (stage_world ''\<newline>GPT-4o Answer:'' (openai_request prompt r hist) w)
         = (Inl e, unread, w2)"
  shows "get_openai_answer_stream post loads prompt r hist w =
           (Inl e,
            leave_response
              \<lparr>status_code = 200, resp_text = body, iter_lines = unread, close_called = False\<rparr>
              w2)"
  using assms
  by (simp add: get_openai_answer_stream_def requests_post_def stage_world_def py_print_def)

lemma answer_stage_failed:
  assumes "post (openai_request prompt r hist) = (status, body, lines)" and "status \<noteq> 200"
  shows "get_openai_answer_stream post loads prompt r hist w =
           (Inr None,
            leave_response
              \<lparr>status_code = status, resp_text = body, iter_lines = lines, close_called = False\<rparr>
              (py_print (PrintStr body)
                (py_print (PrintApiError ''OpenAI'' status)
                  (stage_world ''\<newline>GPT-4o Answer:'' (openai_request prompt r hist) w))))"
  using assms
  by (simp add: get_openai_answer_stream_def requests_post_def stage_world_def py_print_def)

lemma stage_world_stdout:
  "stdout (stage_world heading req w) = stdout w @ [PrintStr heading]"
  by (simp add: stage_world_def py_print_def)

lemma answer_chunk_delta_text:
  assumes c: "first_choice chunk = Some choice" and t: "delta_text choice = Some txt"
  shows "answer_chunk chunk a w = (Inr (Continue (a @ txt)), shown txt w)"
  using t
  by (auto simp: answer_chunk_def has_key_of_shape [OF c] get_key_of_shape [OF c] shown_def
        Let_def split: option.splits json.splits)

lemma answer_chunk_no_Break: "fst (answer_chunk chunk a w) \<noteq> Inr (Break a')"
  by (auto simp: answer_chunk_def Let_def split: sum.splits bool.splits json.splits)

lemma data_done_line:
  assumes "prefix ''data: '' line" and "drop 6 line = ''[DONE]''"
  shows "line = ''data: [DONE]''"
proof -
  from assms(1) obtain zs where "line = ''data: '' @ zs" by (auto simp: prefix_def)
  with assms(2) show ?thesis by simp
qed

lemma answer_body_Break:
  assumes "answer_body loads line a w = (Inr (Break a'), w')"
  shows "line = ''data: [DONE]''"
proof (rule ccontr)
  assume other: "line \<noteq> ''data: [DONE]''"
  show False
  proof (cases "line \<noteq> [] \<and> prefix ''data: '' line")
    case False
    with assms show False by (auto simp: answer_body_def split: if_splits)
  next
    case True
    with other have payload: "drop 6 line \<noteq> ''[DONE]''"
      using data_done_line by blast
    show False
    proof (cases "loads (drop 6 line)")
      case (Inl e)
      with assms True payload show False
        by (auto simp: answer_body_def Let_def split: if_splits)
    next
      case (Inr chunk)
      with assms True payload have "answer_chunk chunk a w = (Inr (Break a'), w')"
        by (simp add: answer_body_def Let_def)
      with answer_chunk_no_Break [of chunk a w a'] show False by simp
    qed
  qed
qed

section \<open>The responses that the stages leave\<close>

lemma reasoning_loop_responses:
  assumes "reasoning_loop loads ls s w = (r, u, w')"
  shows "responses w' = responses w"
  using reasoning_loop_net [of w loads ls s] assms by (simp add: same_net_def)

lemma answer_loop_responses:
  assumes "answer_loop loads ls a w = (r, u, w')"
  shows "responses w' = responses w"
  using answer_loop_net [of w loads ls a] assms by (simp add: same_net_def)

lemma reasoning_delta_Continue_finished:
  assumes "reasoning_delta delta s w = (Inr (Continue s'), w')"
  shows "reasoning_finished s' = reasoning_finished s"
  using assms
  by (auto simp: reasoning_delta_def time_time_def Let_def
        split: sum.splits bool.splits json.splits if_splits)

lemma reasoning_chunk_Continue_finished:
  assumes "reasoning_chunk chunk s w = (Inr (Continue s'), w')"
  shows "reasoning_finished s' = reasoning_finished s"
  using assms reasoning_delta_Continue_finished
  by (auto simp: reasoning_chunk_def split: sum.splits bool.splits)

lemma reasoning_body_Continue_finished:
  assumes "reasoning_body loads line s w = (Inr (Continue s'), w')"
  shows "reasoning_finished s' = reasoning_finished s"
  using assms reasoning_chunk_Continue_finished
  by (auto simp: reasoning_body_def Let_def split: sum.splits if_splits)

lemma reasoning_loop_Continue_finished:
  assumes "reasoning_loop loads ls s w = (Inr (Continue s'), u, w')"
  shows "reasoning_finished s' = reasoning_finished s"
  using assms
proof (induction ls arbitrary: s w)
  case Nil
  then show ?case by simp
next
  case (Cons l ls)
  obtain r w1 where b: "reasoning_body loads l s w = (r, w1)"
    by (cases "reasoning_body loads l s w")
  show ?case
  proof (cases r)
    case (Inl e)
    with Cons.prems b show ?thesis by simp
  next
    case (Inr fl)
    show ?thesis
    proof (cases fl)
      case (Break s1)
      with Inr Cons.prems b show ?thesis by simp
    next
      case (Continue s1)
      with Inr b have "reasoning_body loads l s w = (Inr (Continue s1), w1)" by simp
      then have "reasoning_finished s1 = reasoning_finished s"
        by (rule reasoning_body_Continue_finished)
      moreover from Continue Inr Cons.prems b
      have "reasoning_loop loads ls s1 w1 = (Inr (Continue s'), u, w')" by simp
      then have "reasoning_finished s' = reasoning_finished s1" by (rule Cons.IH)
      ultimately show ?thesis by simp
    qed
  qed
qed

lemma reasoning_stage_after:
  assumes reply: "post (deepseek_request prompt hist) = (200, body, pre @ post_lines)"
    and pre: "reasoning_loop loads pre reasoning_start
                (stage_world ''\<newline>DeepSeek reasoning content:'' (deepseek_request prompt hist) w)
              = (Inr (Continue s), u, w1)"
    and rest: "reasoning_loop loads post_lines s w1 = (Inr fl, unread, w2)"
  shows "responses (snd (get_deepseek_reasoning_stream post loads prompt hist w)) =
           responses w @ [\<lparr>status_code = 200, resp_text = body, iter_lines = unread,
                            close_called = reasoning_finished (flow_state fl)\<rparr>]"
proof -
  let ?w0 = "stage_world ''\<newline>DeepSeek reasoning content:'' (deepseek_request prompt hist) w"
  have run: "reasoning_loop loads (pre @ post_lines) reasoning_start ?w0 = (Inr fl, unread, w2)"
    using reasoning_loop_append [OF pre] rest by simp
  have "responses w2 = responses ?w0"
    using run by (rule reasoning_loop_responses)
  then have res: "responses w2 = responses w"
    by (simp add: stage_world_net)
  have "get_deepseek_reasoning_stream post loads prompt hist w =
           (Inr (Some (reasoning_content (flow_state fl))),
            leave_response
              \<lparr>status_code = 200, resp_text = body, iter_lines = unread,
               close_called = reasoning_finished (flow_state fl)\<rparr>
              (py_print (PrintStr ''\<newline>'') w2))"
    using reply run by (rule reasoning_stage_200)
  then show ?thesis
    by (simp add: leave_response_def py_print_def res)
qed

lemma answer_stage_never_closes:
  assumes reply: "post (openai_request prompt r hist) = (status, body, lines)"
  shows "\<exists>unread. responses (snd (get_openai_answer_stream post loads prompt r hist w)) =
           responses w @ [\<lparr>status_code = status, resp_text = body, iter_lines = unread,
                            close_called = False\<rparr>]"
proof (cases "status = 200")
  case False
  with reply have "get_openai_answer_stream post loads prompt r hist w =
           (Inr None,
            leave_response
              \<lparr>status_code = status, resp_text = body, iter_lines = lines, close_called = False\<rparr>
              (py_print (PrintStr body)
                (py_print (PrintApiError ''OpenAI'' status)
                  (stage_world ''\<newline>GPT-4o Answer:'' (openai_request prompt r hist) w))))"
    by (rule answer_stage_failed)
  then show ?thesis
    by (simp add: leave_response_def py_print_def stage_world_net)
next
  case True
  let ?w0 = "stage_world ''\<newline>GPT-4o Answer:'' (openai_request prompt r hist) w"
  obtain res unread w1 where run: "answer_loop loads lines [] ?w0 = (res, unread, w1)"
    by (cases "answer_loop loads lines [] ?w0") auto
  have "responses w1 = responses ?w0"
    using run by (rule answer_loop_responses)
  then have w1: "responses w1 = responses w"
    by (simp add: stage_world_net)
  from reply True have reply': "post (openai_request prompt r hist) = (200, body, lines)"
    by simp
  show ?thesis
  proof (cases res)
    case (Inl e)
    with run have "answer_loop loads lines [] ?w0 = (Inl e, unread, w1)" by simp
    with reply' have "get_openai_answer_stream post loads prompt r hist w =
           (Inl e,
            leave_response
              \<lparr>status_code = 200, resp_text = body, iter_lines = unread, close_called = False\<rparr>
              w1)"
      by (rule answer_stage_200_raise)
    with True show ?thesis by (simp add: leave_response_def w1)
  next
    case (Inr fl)
    with run have "answer_loop loads lines [] ?w0 = (Inr fl, unread, w1)" by simp
    with reply' have "get_openai_answer_stream post loads prompt r hist w =
           (Inr (Some (flow_state fl)),
            leave_response
              \<lparr>status_code = 200, resp_text = body, iter_lines = unread, close_called = False\<rparr>
              (py_print (PrintStr ''\<newline>'') w1))"
      by (rule answer_stage_200)
    with True show ?thesis by (simp add: leave_response_def py_print_def w1)
  qed
qed

section \<open>The sample inputs\<close>

lemma sample_lines:
  "event_line sample_loads line_ra (delta_chunk ''reasoning_content'' ''a'')"
  "event_line sample_loads line_rb (delta_chunk ''reasoning_content'' ''b'')"
  "event_line sample_loads line_r_empty (delta_chunk ''reasoning_content'' [])"
  "event_line sample_loads line_cx (delta_chunk ''content'' ''x'')"
  "event_line sample_loads line_cy (delta_chunk ''content'' ''y'')"
  "event_line sample_loads line_stop stop_chunk"
  "malformed_line sample_loads line_bad"
  by (simp_all add: event_line_def malformed_line_def sample_loads_def line_ra_def line_rb_def
        line_r_empty_def line_cx_def line_cy_def line_stop_def line_bad_def)

lemma sample_events:
  "ReasoningDelta (delta_chunk ''reasoning_content'' txt) txt"
  "AnswerDelta (delta_chunk ''content'' txt) txt"
  "FinishSignal stop_chunk"
  by (simp_all add: ReasoningDelta_def AnswerDelta_def FinishSignal_def delta_chunk_def
        stop_chunk_def no_finish_def)

lemma endpoints_reasoning:
  "endpoints d a (deepseek_request prompt hist) = d"
  by (simp add: endpoints_def deepseek_request_def)

lemma endpoints_answer:
  "endpoints d a (openai_request prompt r hist) = a"
  by (simp add: endpoints_def openai_request_def OPENAI_BASE_URL_def DEEPSEEK_BASE_URL_def)

lemma stop_chunk_choice:
  "first_choice stop_chunk
     = Some [(''delta'', JObject []), (''finish_reason'', JString ''stop'')]"
  by (simp add: stop_chunk_def)

section \<open>Properties of the history\<close>

text \<open>
  C9: for every stored history, \<open>get_conversation_for_deepseek\<close> returns exactly the
  messages user: question, assistant: answer of each interaction, oldest first.  No message
  has the role system, and the result does not depend on the reasoning texts stored.
\<close>

theorem reasoning_context_alternates:
  "get_conversation_for_deepseek self = concat (map interaction_messages (history self))
   \<and> ''system'' \<notin> set (map role (get_conversation_for_deepseek self))
   \<and> get_conversation_for_deepseek
         (self\<lparr>history := map (\<lambda>i. i\<lparr>reasoning := f i\<rparr>) (history self)\<rparr>)
        = get_conversation_for_deepseek self"
proof -
  have eq: "\<And>h. get_conversation_for_deepseek h = concat (map interaction_messages (history h))"
    by (simp add: get_conversation_for_deepseek_def fold_append_interaction)
  have "get_conversation_for_deepseek
          (self\<lparr>history := map (\<lambda>i. i\<lparr>reasoning := f i\<rparr>) (history self)\<rparr>)
          = get_conversation_for_deepseek self"
    unfolding eq by (simp add: comp_def interaction_messages_forget)
  moreover have "''system'' \<notin> set (map role (get_conversation_for_deepseek self))"
    unfolding eq by (rule interaction_messages_roles)
  ultimately show ?thesis
    using eq by blast
qed

section \<open>Properties of the reasoning stage\<close>

text \<open>
  C1: when the stream of a successful reasoning request carries, between lines that are
  skipped, a reasoning delta "a", a reasoning delta "b" and then an answer delta, the
  stage returns "ab", no line after the answer delta is taken from the stream, and
  \<open>close()\<close> has been called on the response.
\<close>

theorem reasoning_stops_at_answer_delta:
  assumes reply: "post (deepseek_request prompt hist)
                    = (200, body, sk0 @ l1 # sk1 @ l2 # sk2 @ l3 # rest)"
    and sk: "all_skipped sk0" "all_skipped sk1" "all_skipped sk2"
    and l1: "event_line loads l1 c1" "ReasoningDelta c1 ''a''"
    and l2: "event_line loads l2 c2" "ReasoningDelta c2 ''b''"
    and l3: "event_line loads l3 c3" "AnswerDelta c3 x"
  shows "fst (get_deepseek_reasoning_stream post loads prompt hist w) = Inr (Some ''ab'')
         \<and> responses (snd (get_deepseek_reasoning_stream post loads prompt hist w))
             = responses w @ [\<lparr>status_code = 200, resp_text = body, iter_lines = rest,
                                close_called = True\<rparr>]"
proof -
  let ?w1 = "stage_world ''\<newline>DeepSeek reasoning content:'' (deepseek_request prompt hist) w"
  let ?w2 = "shown ''a'' (?w1\<lparr>ticks := Suc (ticks ?w1)\<rparr>)"
  let ?w3 = "shown ''b'' (?w2\<lparr>ticks := Suc (ticks ?w2)\<rparr>)"
  let ?s1 = "reasoning_start\<lparr>last_reasoning_content_time := Some (clock ?w1 (ticks ?w1)),
                reasoning_content := reasoning_content reasoning_start @ ''a''\<rparr>"
  let ?s2 = "?s1\<lparr>last_reasoning_content_time := Some (clock ?w2 (ticks ?w2)),
                reasoning_content := reasoning_content ?s1 @ ''b''\<rparr>"
  have "reasoning_loop loads (sk0 @ l1 # sk1 @ l2 # sk2 @ l3 # rest) reasoning_start ?w1
          = reasoning_loop loads (sk1 @ l2 # sk2 @ l3 # rest) ?s1 ?w2"
    by (simp only: reasoning_loop_skip [OF sk(1)] reasoning_loop_ReasoningDelta [OF l1])
  also have "\<dots> = reasoning_loop loads (sk2 @ l3 # rest) ?s2 ?w3"
    by (simp only: reasoning_loop_skip [OF sk(2)] reasoning_loop_ReasoningDelta [OF l2])
  also have "\<dots> = (Inr (Break (?s2\<lparr>reasoning_finished := True\<rparr>)), rest, ?w3)"
    by (simp only: reasoning_loop_skip [OF sk(3)])
       (rule reasoning_loop_AnswerDelta_seen [OF l3], simp)
  finally have loop: "reasoning_loop loads (sk0 @ l1 # sk1 @ l2 # sk2 @ l3 # rest)
      reasoning_start ?w1 = (Inr (Break (?s2\<lparr>reasoning_finished := True\<rparr>)), rest, ?w3)" .
  have res: "responses ?w3 = responses w"
    by (simp add: shown_def py_print_def stage_world_net)
  have "get_deepseek_reasoning_stream post loads prompt hist w =
           (Inr (Some (reasoning_content (flow_state (Break (?s2\<lparr>reasoning_finished := True\<rparr>))))),
            leave_response
              \<lparr>status_code = 200, resp_text = body, iter_lines = rest,
               close_called = reasoning_finished (flow_state (Break (?s2\<lparr>reasoning_finished := True\<rparr>)))\<rparr>
              (py_print (PrintStr ''\<newline>'') ?w3))"
    using reply loop by (rule reasoning_stage_200)
  then show ?thesis
    by (simp add: leave_response_def py_print_def res reasoning_start_def)
qed

theorem reasoning_stops_at_answer_delta_witness:
  "fst (get_deepseek_reasoning_stream
          (endpoints (200, [], [line_ra, [], line_rb, [], line_cx, line_cy]) (500, [], []))
          sample_loads ''q'' None world0) = Inr (Some ''ab'')
   \<and> responses (snd (get_deepseek_reasoning_stream
          (endpoints (200, [], [line_ra, [], line_rb, [], line_cx, line_cy]) (500, [], []))
          sample_loads ''q'' None world0))
       = [\<lparr>status_code = 200, resp_text = [], iter_lines = [line_cy], close_called = True\<rparr>]"
proof -
  let ?post = "endpoints (200, [], [line_ra, [], line_rb, [], line_cx, line_cy]) (500, [], [])"
  have reply: "?post (deepseek_request ''q'' None)
                 = (200, [], [] @ line_ra # [[]] @ line_rb # [[]] @ line_cx # [line_cy])"
    by (simp add: endpoints_reasoning)
  have sk: "all_skipped []" "all_skipped [[]]"
    by (simp_all add: skipped_line_def)
  show ?thesis
    using reasoning_stops_at_answer_delta [where post = ?post and w = world0,
        OF reply sk(1) sk(2) sk(2) sample_lines(1) sample_events(1) sample_lines(2)
           sample_events(1) sample_lines(4) sample_events(2)]
    by (simp add: world0_def)
qed

text \<open>
  C2: a reasoning delta with the empty text still records that reasoning content was seen
  (the body sets \<open>last_reasoning_content_time\<close>) and appends and prints nothing; an
  answer delta right after it then ends the loop with \<open>reasoning_finished\<close> set, whatever
  the locals were before, and a stage that receives the two lines first returns the empty
  text with the response closed.
\<close>

theorem empty_reasoning_delta_counts:
  assumes l1: "event_line loads l1 c1" "ReasoningDelta c1 []"
    and l2: "event_line loads l2 c2" "AnswerDelta c2 x"
  shows "reasoning_body loads l1 s w =
           (Inr (Continue (s\<lparr>last_reasoning_content_time := Some (clock w (ticks w))\<rparr>)),
            w\<lparr>ticks := Suc (ticks w)\<rparr>)
         \<and> reasoning_loop loads (l1 # l2 # rest) s w =
           (Inr (Break (s\<lparr>last_reasoning_content_time := Some (clock w (ticks w)),
                          reasoning_finished := True\<rparr>)),
            rest, w\<lparr>ticks := Suc (ticks w)\<rparr>)
         \<and> (post (deepseek_request prompt hist) = (200, body, l1 # l2 # rest) \<longrightarrow>
              fst (get_deepseek_reasoning_stream post loads prompt hist w) = Inr (Some [])
              \<and> responses (snd (get_deepseek_reasoning_stream post loads prompt hist w))
                  = responses w @ [\<lparr>status_code = 200, resp_text = body, iter_lines = rest,
                                     close_called = True\<rparr>])"
proof -
  have body: "reasoning_body loads l1 s w =
           (Inr (Continue (s\<lparr>last_reasoning_content_time := Some (clock w (ticks w))\<rparr>)),
            w\<lparr>ticks := Suc (ticks w)\<rparr>)" for s w
    by (simp add: reasoning_body_event [OF l1(1)] reasoning_chunk_ReasoningDelta [OF l1(2)]
          shown_def)
  have loop: "reasoning_loop loads (l1 # l2 # rest) s w =
           (Inr (Break (s\<lparr>last_reasoning_content_time := Some (clock w (ticks w)),
                          reasoning_finished := True\<rparr>)),
            rest, w\<lparr>ticks := Suc (ticks w)\<rparr>)" for s w
    by (simp add: body reasoning_body_event [OF l2(1)] reasoning_chunk_AnswerDelta [OF l2(2)])
  have stage: "fst (get_deepseek_reasoning_stream post loads prompt hist w) = Inr (Some [])
              \<and> responses (snd (get_deepseek_reasoning_stream post loads prompt hist w))
                  = responses w @ [\<lparr>status_code = 200, resp_text = body, iter_lines = rest,
                                     close_called = True\<rparr>]"
    if reply: "post (deepseek_request prompt hist) = (200, body, l1 # l2 # rest)"
  proof -
    let ?w1 = "stage_world ''\<newline>DeepSeek reasoning content:'' (deepseek_request prompt hist) w"
    let ?s = "reasoning_start\<lparr>last_reasoning_content_time := Some (clock ?w1 (ticks ?w1)),
                          reasoning_finished := True\<rparr>"
    have "get_deepseek_reasoning_stream post loads prompt hist w =
           (Inr (Some (reasoning_content (flow_state (Break ?s)))),
            leave_response
              \<lparr>status_code = 200, resp_text = body, iter_lines = rest,
               close_called = reasoning_finished (flow_state (Break ?s))\<rparr>
              (py_print (PrintStr ''\<newline>'') (?w1\<lparr>ticks := Suc (ticks ?w1)\<rparr>)))"
      using reply loop by (rule reasoning_stage_200)
    then show ?thesis
      by (simp add: leave_response_def py_print_def stage_world_net reasoning_start_def)
  qed
  from body loop stage show ?thesis by blast
qed

theorem empty_reasoning_delta_counts_witness:
  "reasoning_loop sample_loads [line_r_empty, line_cx, line_cy] reasoning_start world0 =
     (Inr (Break \<lparr>reasoning_content = [], reasoning_finished = True,
                  last_reasoning_content_time = Some 0\<rparr>),
      [line_cy], world0\<lparr>ticks := 1\<rparr>)
   \<and> fst (get_deepseek_reasoning_stream
          (endpoints (200, [], [line_r_empty, line_cx, line_cy]) (500, [], []))
          sample_loads ''q'' None world0) = Inr (Some [])
   \<and> responses (snd (get_deepseek_reasoning_stream
          (endpoints (200, [], [line_r_empty, line_cx, line_cy]) (500, [], []))
          sample_loads ''q'' None world0))
       = [\<lparr>status_code = 200, resp_text = [], iter_lines = [line_cy], close_called = True\<rparr>]"
proof -
  have s: "reasoning_start\<lparr>last_reasoning_content_time := Some (clock world0 (ticks world0)),
             reasoning_finished := True\<rparr>
           = \<lparr>reasoning_content = [], reasoning_finished = True,
               last_reasoning_content_time = Some 0\<rparr>"
    by (simp add: reasoning_start_def world0_def)
  have w: "world0\<lparr>ticks := Suc (ticks world0)\<rparr> = world0\<lparr>ticks := 1\<rparr>"
    and r: "responses world0 = []"
    by (simp_all add: world0_def)
  show ?thesis
    using empty_reasoning_delta_counts [OF sample_lines(3) sample_events(1) sample_lines(4)
      sample_events(2), where s = reasoning_start and w = world0 and rest = "[line_cy]"
      and post = "endpoints (200, [], [line_r_empty, line_cx, line_cy]) (500, [], [])"
      and prompt = "''q''" and hist = None and body = "[]"]
    by (simp add: endpoints_reasoning s w r del: reasoning_loop.simps)
qed

text \<open>
  C10: an answer delta that arrives while no reasoning content has been seen is ignored by
  the reasoning loop: the locals and the world stay as they are, the loop does not stop,
  and it goes on with the next line.
\<close>

theorem answer_delta_before_reasoning_ignored:
  assumes "event_line loads l c" and "AnswerDelta c x"
    and "last_reasoning_content_time s = None"
  shows "reasoning_body loads l s w = (Inr (Continue s), w)
         \<and> reasoning_loop loads (l # rest) s w = reasoning_loop loads rest s w"
  using assms(3)
  by (simp add: reasoning_body_event [OF assms(1)] reasoning_chunk_AnswerDelta [OF assms(2)])

theorem answer_delta_before_reasoning_ignored_witness:
  "reasoning_body sample_loads line_cx reasoning_start world0 = (Inr (Continue reasoning_start), world0)
   \<and> reasoning_loop sample_loads [line_cx, line_ra] reasoning_start world0
       = reasoning_loop sample_loads [line_ra] reasoning_start world0
   \<and> reasoning_loop sample_loads [line_cx, line_ra] reasoning_start world0
       = (Inr (Continue \<lparr>reasoning_content = ''a'', reasoning_finished = False,
                  last_reasoning_content_time = Some 0\<rparr>), [],
          world0\<lparr>stdout := [PrintValue (JString ''a'')], ticks := 1\<rparr>)"
proof -
  have none: "last_reasoning_content_time reasoning_start = None"
    by (simp add: reasoning_start_def)
  have "reasoning_loop sample_loads [line_ra] reasoning_start world0
       = (Inr (Continue \<lparr>reasoning_content = ''a'', reasoning_finished = False,
                  last_reasoning_content_time = Some 0\<rparr>), [],
          world0\<lparr>stdout := [PrintValue (JString ''a'')], ticks := 1\<rparr>)"
    by (simp only: reasoning_loop_ReasoningDelta [OF sample_lines(1) sample_events(1)])
       (simp add: reasoning_start_def world0_def shown_def py_print_def)
  with answer_delta_before_reasoning_ignored [OF sample_lines(4) sample_events(2) none,
      of world0 "[line_ra]"]
  show ?thesis by (simp del: reasoning_loop.simps)
qed

text \<open>
  C8: when the reasoning request succeeds and the stream carries one reasoning delta with
  the empty text and then the end-of-stream sentinel, the stage returns the empty text, a
  result that is neither an exception nor \<open>None\<close>.
\<close>

theorem empty_reasoning_is_success:
  assumes reply: "post (deepseek_request prompt hist)
                    = (200, body, sk0 @ l1 # sk1 @ ''data: [DONE]'' # rest)"
    and sk: "all_skipped sk0" "all_skipped sk1"
    and l1: "event_line loads l1 c1" "ReasoningDelta c1 []"
  shows "fst (get_deepseek_reasoning_stream post loads prompt hist w) = Inr (Some [])"
proof -
  let ?w1 = "stage_world ''\<newline>DeepSeek reasoning content:'' (deepseek_request prompt hist) w"
  let ?s = "reasoning_start\<lparr>last_reasoning_content_time := Some (clock ?w1 (ticks ?w1)),
              reasoning_content := reasoning_content reasoning_start @ []\<rparr>"
  let ?w2 = "shown [] (?w1\<lparr>ticks := Suc (ticks ?w1)\<rparr>)"
  have "reasoning_loop loads (sk0 @ l1 # sk1 @ ''data: [DONE]'' # rest) reasoning_start ?w1
          = reasoning_loop loads (sk1 @ ''data: [DONE]'' # rest) ?s ?w2"
    by (simp only: reasoning_loop_skip [OF sk(1)] reasoning_loop_ReasoningDelta [OF l1])
  also have "\<dots> = (Inr (Break ?s), rest, ?w2)"
    by (simp only: reasoning_loop_skip [OF sk(2)] reasoning_loop_done)
  finally have loop: "reasoning_loop loads (sk0 @ l1 # sk1 @ ''data: [DONE]'' # rest)
      reasoning_start ?w1 = (Inr (Break ?s), rest, ?w2)" .
  have "get_deepseek_reasoning_stream post loads prompt hist w =
           (Inr (Some (reasoning_content (flow_state (Break ?s)))),
            leave_response
              \<lparr>status_code = 200, resp_text = body, iter_lines = rest,
               close_called = reasoning_finished (flow_state (Break ?s))\<rparr>
              (py_print (PrintStr ''\<newline>'') ?w2))"
    using reply loop by (rule reasoning_stage_200)
  then show ?thesis
    by (simp add: reasoning_start_def)
qed

theorem empty_reasoning_is_success_witness:
  "fst (get_deepseek_reasoning_stream
          (endpoints (200, [], [line_r_empty, [], line_done]) (500, [], []))
          sample_loads ''q'' None world0) = Inr (Some [])"
proof -
  let ?post = "endpoints (200, [], [line_r_empty, [], line_done]) (500, [], [])"
  have reply: "?post (deepseek_request ''q'' None)
                 = (200, [], [] @ line_r_empty # [[]] @ ''data: [DONE]'' # [])"
    by (simp add: endpoints_reasoning line_done_def)
  have sk: "all_skipped []" "all_skipped [[]]"
    by (simp_all add: skipped_line_def)
  show ?thesis
    using empty_reasoning_is_success [where post = ?post and w = world0,
        OF reply sk sample_lines(3) sample_events(1)]
    by simp
qed

section \<open>Properties of the answer stage\<close>

text \<open>
  A line whose payload \<open>json.loads\<close> rejects with JSONDecodeError, between two answer
  deltas: the answer loop appends the two texts, reports the line in between and goes on
  with the lines that follow; a stage whose stream holds nothing else returns the
  concatenation of the two texts, and its output is the first text, the report, the second
  text, in this order.
\<close>

lemma json_error_line_between_answers:
  assumes l1: "event_line loads l1 c1" "AnswerDelta c1 t1"
    and bad: "malformed_line loads bad"
    and l2: "event_line loads l2 c2" "AnswerDelta c2 t2"
    and sk: "all_skipped sk0" "all_skipped sk1" "all_skipped sk2"
  shows "answer_loop loads (sk0 @ l1 # sk1 @ bad # sk2 @ l2 # rest) a w =
           answer_loop loads rest (a @ t1 @ t2)
             (shown t2 (py_print (PrintDecodeError (drop 6 bad)) (shown t1 w)))
         \<and> (all_skipped rest
              \<and> post (openai_request prompt r hist)
                   = (200, body, sk0 @ l1 # sk1 @ bad # sk2 @ l2 # rest) \<longrightarrow>
              fst (get_openai_answer_stream post loads prompt r hist w) = Inr (Some (t1 @ t2))
              \<and> stdout (snd (get_openai_answer_stream post loads prompt r hist w))
                  = stdout w @ [PrintStr ''\<newline>GPT-4o Answer:''] @ delta_output t1
                      @ [PrintDecodeError (drop 6 bad)] @ delta_output t2
                      @ [PrintStr ''\<newline>''])"
proof -
  have loop: "answer_loop loads (sk0 @ l1 # sk1 @ bad # sk2 @ l2 # rest) a w =
           answer_loop loads rest (a @ t1 @ t2)
             (shown t2 (py_print (PrintDecodeError (drop 6 bad)) (shown t1 w)))" for a w
  proof -
    have "answer_loop loads (sk0 @ l1 # sk1 @ bad # sk2 @ l2 # rest) a w
            = answer_loop loads (sk1 @ bad # sk2 @ l2 # rest) (a @ t1) (shown t1 w)"
      by (simp only: answer_loop_skip [OF sk(1)] answer_loop_AnswerDelta [OF l1])
    also have "\<dots> = answer_loop loads (sk2 @ l2 # rest) (a @ t1)
                        (py_print (PrintDecodeError (drop 6 bad)) (shown t1 w))"
      by (simp only: answer_loop_skip [OF sk(2)] answer_loop_malformed [OF bad])
    also have "\<dots> = answer_loop loads rest ((a @ t1) @ t2)
                        (shown t2 (py_print (PrintDecodeError (drop 6 bad)) (shown t1 w)))"
      by (simp only: answer_loop_skip [OF sk(3)] answer_loop_AnswerDelta [OF l2])
    finally show ?thesis by simp
  qed
  have stage: "fst (get_openai_answer_stream post loads prompt r hist w) = Inr (Some (t1 @ t2))
              \<and> stdout (snd (get_openai_answer_stream post loads prompt r hist w))
                  = stdout w @ [PrintStr ''\<newline>GPT-4o Answer:''] @ delta_output t1
                      @ [PrintDecodeError (drop 6 bad)] @ delta_output t2
                      @ [PrintStr ''\<newline>'']"
    if rest: "all_skipped rest"
      and reply: "post (openai_request prompt r hist)
                   = (200, body, sk0 @ l1 # sk1 @ bad # sk2 @ l2 # rest)"
  proof -
    let ?w1 = "stage_world ''\<newline>GPT-4o Answer:'' (openai_request prompt r hist) w"
    let ?w2 = "shown t2 (py_print (PrintDecodeError (drop 6 bad)) (shown t1 ?w1))"
    have "answer_loop loads rest ([] @ t1 @ t2) ?w2 = (Inr (Continue (t1 @ t2)), [], ?w2)"
      using answer_loop_skip [OF rest, of loads "[]"] by simp
    with loop have run: "answer_loop loads (sk0 @ l1 # sk1 @ bad # sk2 @ l2 # rest) [] ?w1
                     = (Inr (Continue (t1 @ t2)), [], ?w2)"
      by simp
    have "get_openai_answer_stream post loads prompt r hist w =
           (Inr (Some (flow_state (Continue (t1 @ t2)))),
            leave_response
              \<lparr>status_code = 200, resp_text = body, iter_lines = [], close_called = False\<rparr>
              (py_print (PrintStr ''\<newline>'') ?w2))"
      using reply run by (rule answer_stage_200)
    then show ?thesis
      by (simp add: leave_response_def py_print_def stdout_shown stage_world_stdout)
  qed
  from loop stage show ?thesis by blast
qed

lemma json_error_line_between_answers_example:
  "fst (get_openai_answer_stream
          (endpoints (500, [], []) (200, [], [line_cx, [], line_bad, line_cy, []]))
          sample_loads ''q'' ''r'' None world0) = Inr (Some ''xy'')
   \<and> stdout (snd (get_openai_answer_stream
          (endpoints (500, [], []) (200, [], [line_cx, [], line_bad, line_cy, []]))
          sample_loads ''q'' ''r'' None world0))
       = [PrintStr ''\<newline>GPT-4o Answer:'', PrintValue (JString ''x''),
          PrintDecodeError (drop 6 line_bad), PrintValue (JString ''y''), PrintStr ''\<newline>'']"
proof -
  let ?post = "endpoints (500, [], []) (200, [], [line_cx, [], line_bad, line_cy, []])"
  have reply: "?post (openai_request ''q'' ''r'' None)
                 = (200, [], [] @ line_cx # [[]] @ line_bad # [] @ line_cy # [[]])"
    by (simp add: endpoints_answer)
  have sk: "all_skipped []" "all_skipped [[]]"
    by (simp_all add: skipped_line_def)
  have out: "stdout world0 = []" by (simp add: world0_def)
  show ?thesis
    using json_error_line_between_answers [OF sample_lines(4) sample_events(2) sample_lines(7)
        sample_lines(5) sample_events(2) sk(1) sk(2) sk(1),
        where rest = "[[]]" and post = ?post and w = world0 and prompt = "''q''"
          and r = "''r''" and hist = None and body = "[]"] sk(2) reply
    by (simp add: delta_output_def out del: answer_loop.simps)
qed

text \<open>
  A payload on which \<open>json.loads\<close> raises anything but JSONDecodeError is not handled:
  the exception leaves the loop body, and with it the loop and the stage.
\<close>

lemma answer_body_raises:
  assumes "prefix ''data: '' line" and "drop 6 line \<noteq> ''[DONE]''"
    and "loads (drop 6 line) = Inl e" and "e \<noteq> JSONDecodeError"
  shows "answer_body loads line a w = (Inl e, w)"
proof -
  from assms(1) have "line \<noteq> []" by auto
  with assms show ?thesis by (simp add: answer_body_def Let_def)
qed

lemma answer_loop_raises:
  assumes "prefix ''data: '' line" and "drop 6 line \<noteq> ''[DONE]''"
    and "loads (drop 6 line) = Inl e" and "e \<noteq> JSONDecodeError"
  shows "answer_loop loads (line # rest) a w = (Inl e, rest, w)"
proof -
  from assms have "answer_body loads line a w = (Inl e, w)"
    by (rule answer_body_raises)
  then show ?thesis by simp
qed

text \<open>
  C7, on a line that is not JSON-decodable because it is not UTF-8: between an answer
  delta "x" and an answer delta "y" stands a line whose payload is the byte 0xFF.
  \<open>json.loads\<close> raises UnicodeDecodeError on it, which the handler for JSONDecodeError does
  not catch: the stage raises, nothing is reported, the line with "y" is never taken from
  the stream, and no answer is returned.
\<close>

theorem answer_stage_aborts_on_undecodable_bytes:
  "sample_loads (drop 6 line_not_utf8) = Inl UnicodeDecodeError
   \<and> get_openai_answer_stream
         (endpoints (500, [], []) (200, [], [line_cx, line_not_utf8, line_cy]))
         sample_loads ''q'' ''r'' None world0
       = (Inl UnicodeDecodeError,
          world0\<lparr>stdout := [PrintStr ''\<newline>GPT-4o Answer:'', PrintValue (JString ''x'')],
                 posted := [openai_request ''q'' ''r'' None],
                 responses := [\<lparr>status_code = 200, resp_text = [], iter_lines = [line_cy],
                                close_called = False\<rparr>]\<rparr>)"
proof -
  let ?post = "endpoints (500, [], []) (200, [], [line_cx, line_not_utf8, line_cy])"
  let ?w0 = "stage_world ''\<newline>GPT-4o Answer:'' (openai_request ''q'' ''r'' None) world0"
  have reply: "?post (openai_request ''q'' ''r'' None)
                 = (200, [], [line_cx, line_not_utf8, line_cy])"
    by (simp add: endpoints_answer)
  have bytes: "sample_loads (drop 6 line_not_utf8) = Inl UnicodeDecodeError"
    by (simp add: line_not_utf8_def sample_loads_def)
  have marker: "prefix ''data: '' line_not_utf8" and payload: "drop 6 line_not_utf8 \<noteq> ''[DONE]''"
    by (simp_all add: line_not_utf8_def)
  have "answer_loop sample_loads [line_cx, line_not_utf8, line_cy] [] ?w0
          = answer_loop sample_loads [line_not_utf8, line_cy] ([] @ ''x'') (shown ''x'' ?w0)"
    by (simp only: answer_loop_AnswerDelta [OF sample_lines(4) sample_events(2)])
  also have "\<dots> = (Inl UnicodeDecodeError, [line_cy], shown ''x'' ?w0)"
    using marker payload bytes by (rule answer_loop_raises) simp
  finally have run: "answer_loop sample_loads [line_cx, line_not_utf8, line_cy] [] ?w0
          = (Inl UnicodeDecodeError, [line_cy], shown ''x'' ?w0)" .
  have "get_openai_answer_stream ?post sample_loads ''q'' ''r'' None world0 =
           (Inl UnicodeDecodeError,
            leave_response
              \<lparr>status_code = 200, resp_text = [], iter_lines = [line_cy], close_called = False\<rparr>
              (shown ''x'' ?w0))"
    using reply run by (rule answer_stage_200_raise)
  then have "get_openai_answer_stream ?post sample_loads ''q'' ''r'' None world0
       = (Inl UnicodeDecodeError,
          world0\<lparr>stdout := [PrintStr ''\<newline>GPT-4o Answer:'', PrintValue (JString ''x'')],
                 posted := [openai_request ''q'' ''r'' None],
                 responses := [\<lparr>status_code = 200, resp_text = [], iter_lines = [line_cy],
                                close_called = False\<rparr>]\<rparr>)"
    by (simp add: leave_response_def py_print_def shown_def stage_world_def world0_def)
  with bytes show ?thesis by simp
qed

text \<open>
  C6, as the code has it: a finish signal does not stop the answer loop.  The loop never
  looks at \<open>finish_reason\<close>: the delta of such a chunk is handled as in any other chunk
  (a content text is appended and printed, no content changes nothing), the loop goes on
  with the next line, and the only line at which the loop body breaks is the sentinel
  \<open>[DONE]\<close>.
\<close>

theorem answer_loop_ignores_finish_signal:
  assumes l: "event_line loads l c" and fin: "FinishSignal c"
    and ch: "first_choice c = Some choice" and dt: "delta_text choice = Some txt"
  shows "answer_loop loads (l # rest) a w = answer_loop loads rest (a @ txt) (shown txt w)
         \<and> (\<forall>line b v b' v'.
               answer_body loads line b v = (Inr (Break b'), v') \<longrightarrow> line = ''data: [DONE]'')"
  using answer_body_Break
  by (simp add: answer_body_event [OF l] answer_chunk_delta_text [OF ch dt])

theorem answer_loop_ignores_finish_signal_witness:
  "answer_loop sample_loads [line_stop, line_cy] ''x'' world0
     = (Inr (Continue ''xy''), [], world0\<lparr>stdout := [PrintValue (JString ''y'')]\<rparr>)"
proof -
  have t: "delta_text [(''delta'', JObject []), (''finish_reason'', JString ''stop'')] = Some []"
    by simp
  have "answer_loop sample_loads [line_stop, line_cy] ''x'' world0
          = answer_loop sample_loads [line_cy] (''x'' @ []) (shown [] world0)"
    using answer_loop_ignores_finish_signal [OF sample_lines(6) sample_events(3)
        stop_chunk_choice t, of "[line_cy]" "''x''" world0]
    by blast
  also have "\<dots> = answer_loop sample_loads [] ''xy'' (shown ''y'' world0)"
    by (simp only: answer_loop_AnswerDelta [OF sample_lines(5) sample_events(2)])
       (simp add: shown_def)
  finally show ?thesis
    by (simp add: shown_def py_print_def world0_def)
qed

text \<open>
  C6 as stated fails: on an answer delta "x", a finish signal and an answer delta "y" the
  stage reads the whole stream and returns "xy", not the "x" accumulated at the finish
  signal.
\<close>

theorem answer_stage_reads_past_finish_signal:
  "event_line sample_loads line_stop stop_chunk \<and> FinishSignal stop_chunk
   \<and> get_openai_answer_stream
         (endpoints (500, [], []) (200, [], [line_cx, line_stop, line_cy]))
         sample_loads ''q'' ''r'' None world0
       = (Inr (Some ''xy''),
          world0\<lparr>stdout := [PrintStr ''\<newline>GPT-4o Answer:'', PrintValue (JString ''x''),
                             PrintValue (JString ''y''), PrintStr ''\<newline>''],
                 posted := [openai_request ''q'' ''r'' None],
                 responses := [\<lparr>status_code = 200, resp_text = [], iter_lines = [],
                                close_called = False\<rparr>]\<rparr>)
   \<and> fst (get_openai_answer_stream
         (endpoints (500, [], []) (200, [], [line_cx, line_stop, line_cy]))
         sample_loads ''q'' ''r'' None world0) \<noteq> Inr (Some ''x'')"
proof -
  let ?post = "endpoints (500, [], []) (200, [], [line_cx, line_stop, line_cy])"
  let ?w1 = "stage_world ''\<newline>GPT-4o Answer:'' (openai_request ''q'' ''r'' None) world0"
  have reply: "?post (openai_request ''q'' ''r'' None) = (200, [], [line_cx, line_stop, line_cy])"
    by (simp add: endpoints_answer)
  have t: "delta_text [(''delta'', JObject []), (''finish_reason'', JString ''stop'')] = Some []"
    by simp
  have "answer_loop sample_loads [line_cx, line_stop, line_cy] [] ?w1
          = answer_loop sample_loads [line_stop, line_cy] ''x'' (shown ''x'' ?w1)"
    by (simp only: answer_loop_AnswerDelta [OF sample_lines(4) sample_events(2)]) simp
  also have "\<dots> = answer_loop sample_loads [line_cy] ''x'' (shown ''x'' ?w1)"
    by (simp add: answer_body_event [OF sample_lines(6)]
          answer_chunk_delta_text [OF stop_chunk_choice t] shown_def)
  also have "\<dots> = answer_loop sample_loads [] ''xy'' (shown ''y'' (shown ''x'' ?w1))"
    by (simp only: answer_loop_AnswerDelta [OF sample_lines(5) sample_events(2)]) simp
  finally have run: "answer_loop sample_loads [line_cx, line_stop, line_cy] [] ?w1
          = (Inr (Continue ''xy''), [], shown ''y'' (shown ''x'' ?w1))"
    by simp
  have "get_openai_answer_stream ?post sample_loads ''q'' ''r'' None world0 =
           (Inr (Some (flow_state (Continue ''xy''))),
            leave_response
              \<lparr>status_code = 200, resp_text = [], iter_lines = [], close_called = False\<rparr>
              (py_print (PrintStr ''\<newline>'') (shown ''y'' (shown ''x'' ?w1))))"
    using reply run by (rule answer_stage_200)
  then have "get_openai_answer_stream ?post sample_loads ''q'' ''r'' None world0
       = (Inr (Some ''xy''),
          world0\<lparr>stdout := [PrintStr ''\<newline>GPT-4o Answer:'', PrintValue (JString ''x''),
                             PrintValue (JString ''y''), PrintStr ''\<newline>''],
                 posted := [openai_request ''q'' ''r'' None],
                 responses := [\<lparr>status_code = 200, resp_text = [], iter_lines = [],
                                close_called = False\<rparr>]\<rparr>)"
    by (simp add: leave_response_def py_print_def shown_def stage_world_def world0_def)
  then show ?thesis
    by (simp add: sample_lines(6) sample_events(3))
qed

section \<open>Calls of close\<close>

text \<open>
  Where the program itself calls \<open>close()\<close>: the reasoning stage does when it stops at the
  transition from reasoning to answer content.  When it stops at \<open>[DONE]\<close>, when the
  stream runs out, and on a status other than 200 it returns without such a call; the
  answer stage makes no such call on any exit path, whether it returns or raises.
  (\<open>pre\<close> stands for lines that the reasoning loop consumes without stopping.)
  Whether the connection is released on the paths without a call of \<open>close()\<close> is
  decided by the HTTP library and the runtime, and nothing is said about it here.
\<close>

lemma close_calls_by_exit:
  "(post (deepseek_request prompt hist) = (200, body, pre @ l # rest)
      \<and> reasoning_loop loads pre reasoning_start
            (stage_world ''\<newline>DeepSeek reasoning content:'' (deepseek_request prompt hist) w)
          = (Inr (Continue s), u, w')
      \<and> last_reasoning_content_time s \<noteq> None \<and> event_line loads l c \<and> AnswerDelta c x
    \<longrightarrow> responses (snd (get_deepseek_reasoning_stream post loads prompt hist w))
          = responses w @ [\<lparr>status_code = 200, resp_text = body, iter_lines = rest,
                             close_called = True\<rparr>])
   \<and> (post (deepseek_request prompt hist) = (200, body, pre @ ''data: [DONE]'' # rest)
      \<and> reasoning_loop loads pre reasoning_start
            (stage_world ''\<newline>DeepSeek reasoning content:'' (deepseek_request prompt hist) w)
          = (Inr (Continue s), u, w')
    \<longrightarrow> responses (snd (get_deepseek_reasoning_stream post loads prompt hist w))
          = responses w @ [\<lparr>status_code = 200, resp_text = body, iter_lines = rest,
                             close_called = False\<rparr>])
   \<and> (post (deepseek_request prompt hist) = (200, body, pre)
      \<and> reasoning_loop loads pre reasoning_start
            (stage_world ''\<newline>DeepSeek reasoning content:'' (deepseek_request prompt hist) w)
          = (Inr (Continue s), u, w')
    \<longrightarrow> responses (snd (get_deepseek_reasoning_stream post loads prompt hist w))
          = responses w @ [\<lparr>status_code = 200, resp_text = body, iter_lines = [],
                             close_called = False\<rparr>])
   \<and> (post (deepseek_request prompt hist) = (status, body, lines) \<and> status \<noteq> 200
    \<longrightarrow> responses (snd (get_deepseek_reasoning_stream post loads prompt hist w))
          = responses w @ [\<lparr>status_code = status, resp_text = body, iter_lines = lines,
                             close_called = False\<rparr>])
   \<and> (post (openai_request prompt r hist) = (status, body, lines)
    \<longrightarrow> (\<exists>unread. responses (snd (get_openai_answer_stream post loads prompt r hist w))
          = responses w @ [\<lparr>status_code = status, resp_text = body, iter_lines = unread,
                             close_called = False\<rparr>]))"
proof (intro conjI impI; (elim conjE)?)
  assume reply: "post (deepseek_request prompt hist) = (200, body, pre @ l # rest)"
    and pre: "reasoning_loop loads pre reasoning_start
            (stage_world ''\<newline>DeepSeek reasoning content:'' (deepseek_request prompt hist) w)
          = (Inr (Continue s), u, w')"
    and seen: "last_reasoning_content_time s \<noteq> None"
    and l: "event_line loads l c" "AnswerDelta c x"
  have "reasoning_loop loads (l # rest) s w'
          = (Inr (Break (s\<lparr>reasoning_finished := True\<rparr>)), rest, w')"
    using l seen by (rule reasoning_loop_AnswerDelta_seen)
  with reply pre
  have "responses (snd (get_deepseek_reasoning_stream post loads prompt hist w)) =
           responses w @ [\<lparr>status_code = 200, resp_text = body, iter_lines = rest,
              close_called = reasoning_finished (flow_state (Break (s\<lparr>reasoning_finished := True\<rparr>)))\<rparr>]"
    by (rule reasoning_stage_after)
  then show "responses (snd (get_deepseek_reasoning_stream post loads prompt hist w))
          = responses w @ [\<lparr>status_code = 200, resp_text = body, iter_lines = rest,
                             close_called = True\<rparr>]"
    by simp
next
  assume reply: "post (deepseek_request prompt hist) = (200, body, pre @ ''data: [DONE]'' # rest)"
    and pre: "reasoning_loop loads pre reasoning_start
            (stage_world ''\<newline>DeepSeek reasoning content:'' (deepseek_request prompt hist) w)
          = (Inr (Continue s), u, w')"
  have fin: "reasoning_finished s = False"
    using reasoning_loop_Continue_finished [OF pre] by (simp add: reasoning_start_def)
  have "reasoning_loop loads (''data: [DONE]'' # rest) s w' = (Inr (Break s), rest, w')"
    by (rule reasoning_loop_done)
  with reply pre
  have "responses (snd (get_deepseek_reasoning_stream post loads prompt hist w)) =
           responses w @ [\<lparr>status_code = 200, resp_text = body, iter_lines = rest,
              close_called = reasoning_finished (flow_state (Break s))\<rparr>]"
    by (rule reasoning_stage_after)
  then show "responses (snd (get_deepseek_reasoning_stream post loads prompt hist w))
          = responses w @ [\<lparr>status_code = 200, resp_text = body, iter_lines = rest,
                             close_called = False\<rparr>]"
    by (simp add: fin)
next
  assume reply: "post (deepseek_request prompt hist) = (200, body, pre)"
    and pre: "reasoning_loop loads pre reasoning_start
            (stage_world ''\<newline>DeepSeek reasoning content:'' (deepseek_request prompt hist) w)
          = (Inr (Continue s), u, w')"
  have fin: "reasoning_finished s = False"
    using reasoning_loop_Continue_finished [OF pre] by (simp add: reasoning_start_def)
  have "reasoning_loop loads [] s w' = (Inr (Continue s), [], w')"
    by simp
  with _ pre
  have "responses (snd (get_deepseek_reasoning_stream post loads prompt hist w)) =
           responses w @ [\<lparr>status_code = 200, resp_text = body, iter_lines = [],
              close_called = reasoning_finished (flow_state (Continue s))\<rparr>]"
    by (rule reasoning_stage_after) (simp add: reply)
  then show "responses (snd (get_deepseek_reasoning_stream post loads prompt hist w))
          = responses w @ [\<lparr>status_code = 200, resp_text = body, iter_lines = [],
                             close_called = False\<rparr>]"
    by (simp add: fin)
next
  assume reply: "post (deepseek_request prompt hist) = (status, body, lines)"
    and st: "status \<noteq> 200"
  from reply st have "get_deepseek_reasoning_stream post loads prompt hist w =
           (Inr None,
            leave_response
              \<lparr>status_code = status, resp_text = body, iter_lines = lines, close_called = False\<rparr>
              (py_print (PrintStr body)
                (py_print (PrintApiError ''DeepSeek'' status)
                  (stage_world ''\<newline>DeepSeek reasoning content:''
                     (deepseek_request prompt hist) w))))"
    by (rule reasoning_stage_failed)
  then show "responses (snd (get_deepseek_reasoning_stream post loads prompt hist w))
          = responses w @ [\<lparr>status_code = status, resp_text = body, iter_lines = lines,
                             close_called = False\<rparr>]"
    by (simp add: leave_response_def py_print_def stage_world_net)
next
  assume reply: "post (openai_request prompt r hist) = (status, body, lines)"
  then show "\<exists>unread. responses (snd (get_openai_answer_stream post loads prompt r hist w))
          = responses w @ [\<lparr>status_code = status, resp_text = body, iter_lines = unread,
                             close_called = False\<rparr>]"
    by (rule answer_stage_never_closes)
qed

lemma close_calls_by_exit_examples:
  "responses (snd (get_deepseek_reasoning_stream
      (endpoints (200, [], [line_ra, line_cx, line_cy]) (500, [], []))
      sample_loads ''q'' None world0))
     = [\<lparr>status_code = 200, resp_text = [], iter_lines = [line_cy], close_called = True\<rparr>]
   \<and> responses (snd (get_deepseek_reasoning_stream
      (endpoints (200, [], [line_ra, line_done, line_cy]) (500, [], []))
      sample_loads ''q'' None world0))
     = [\<lparr>status_code = 200, resp_text = [], iter_lines = [line_cy], close_called = False\<rparr>]
   \<and> responses (snd (get_deepseek_reasoning_stream
      (endpoints (200, [], [line_ra]) (500, [], []))
      sample_loads ''q'' None world0))
     = [\<lparr>status_code = 200, resp_text = [], iter_lines = [], close_called = False\<rparr>]
   \<and> responses (snd (get_deepseek_reasoning_stream
      (endpoints (500, ''down'', [line_ra]) (500, [], []))
      sample_loads ''q'' None world0))
     = [\<lparr>status_code = 500, resp_text = ''down'', iter_lines = [line_ra], close_called = False\<rparr>]
   \<and> (\<exists>unread. responses (snd (get_openai_answer_stream
      (endpoints (500, [], []) (200, [], [line_cx, line_done]))
      sample_loads ''q'' ''r'' None world0))
     = [\<lparr>status_code = 200, resp_text = [], iter_lines = unread, close_called = False\<rparr>])"
proof -
  let ?w0 = "stage_world ''\<newline>DeepSeek reasoning content:'' (deepseek_request ''q'' None) world0"
  let ?s = "reasoning_start\<lparr>last_reasoning_content_time := Some (clock ?w0 (ticks ?w0)),
              reasoning_content := reasoning_content reasoning_start @ ''a''\<rparr>"
  let ?w1 = "shown ''a'' (?w0\<lparr>ticks := Suc (ticks ?w0)\<rparr>)"
  have pre: "reasoning_loop sample_loads [line_ra] reasoning_start ?w0 = (Inr (Continue ?s), [], ?w1)"
    by (simp only: reasoning_loop_ReasoningDelta [OF sample_lines(1) sample_events(1)]
          reasoning_loop.simps(1))
  have seen: "last_reasoning_content_time ?s \<noteq> None" by simp
  have r0: "responses world0 = []" by (simp add: world0_def)
  have a: "responses (snd (get_deepseek_reasoning_stream
      (endpoints (200, [], [line_ra, line_cx, line_cy]) (500, [], []))
      sample_loads ''q'' None world0))
     = [\<lparr>status_code = 200, resp_text = [], iter_lines = [line_cy], close_called = True\<rparr>]"
    using close_calls_by_exit
      [where post = "endpoints (200, [], [line_ra, line_cx, line_cy]) (500, [], [])"
         and prompt = "''q''" and hist = None and body = "[]" and pre = "[line_ra]"
         and l = line_cx and rest = "[line_cy]" and loads = sample_loads and w = world0
         and s = ?s and u = "[]" and w' = ?w1 and c = "delta_chunk ''content'' ''x''"
         and x = "''x''"]
      pre seen sample_lines(4) sample_events(2)
    by (simp add: endpoints_reasoning r0 del: reasoning_loop.simps)
  have b: "responses (snd (get_deepseek_reasoning_stream
      (endpoints (200, [], [line_ra, line_done, line_cy]) (500, [], []))
      sample_loads ''q'' None world0))
     = [\<lparr>status_code = 200, resp_text = [], iter_lines = [line_cy], close_called = False\<rparr>]"
    using close_calls_by_exit
      [where post = "endpoints (200, [], [line_ra, line_done, line_cy]) (500, [], [])"
         and prompt = "''q''" and hist = None and body = "[]" and pre = "[line_ra]"
         and rest = "[line_cy]" and loads = sample_loads and w = world0
         and s = ?s and u = "[]" and w' = ?w1]
      pre
    by (simp add: endpoints_reasoning r0 line_done_def del: reasoning_loop.simps)
  have c: "responses (snd (get_deepseek_reasoning_stream
      (endpoints (200, [], [line_ra]) (500, [], []))
      sample_loads ''q'' None world0))
     = [\<lparr>status_code = 200, resp_text = [], iter_lines = [], close_called = False\<rparr>]"
    using close_calls_by_exit
      [where post = "endpoints (200, [], [line_ra]) (500, [], [])"
         and prompt = "''q''" and hist = None and body = "[]" and pre = "[line_ra]"
         and loads = sample_loads and w = world0
         and s = ?s and u = "[]" and w' = ?w1]
      pre
    by (simp add: endpoints_reasoning r0 del: reasoning_loop.simps)
  have d: "responses (snd (get_deepseek_reasoning_stream
      (endpoints (500, ''down'', [line_ra]) (500, [], []))
      sample_loads ''q'' None world0))
     = [\<lparr>status_code = 500, resp_text = ''down'', iter_lines = [line_ra], close_called = False\<rparr>]"
    using close_calls_by_exit
      [where post = "endpoints (500, ''down'', [line_ra]) (500, [], [])"
         and prompt = "''q''" and hist = None and body = "''down''" and status = 500
         and lines = "[line_ra]" and loads = sample_loads and w = world0]
    by (simp add: endpoints_reasoning r0 del: reasoning_loop.simps)
  have e: "\<exists>unread. responses (snd (get_openai_answer_stream
      (endpoints (500, [], []) (200, [], [line_cx, line_done]))
      sample_loads ''q'' ''r'' None world0))
     = [\<lparr>status_code = 200, resp_text = [], iter_lines = unread, close_called = False\<rparr>]"
    using close_calls_by_exit
      [where post = "endpoints (500, [], []) (200, [], [line_cx, line_done])"
         and prompt = "''q''" and hist = None and body = "[]" and status = 200 and r = "''r''"
         and lines = "[line_cx, line_done]" and loads = sample_loads and w = world0]
    by (simp add: endpoints_answer r0 del: answer_loop.simps)
  from a b c d e show ?thesis by blast
qed

section \<open>Properties of a round\<close>

text \<open>A stage returns \<open>None\<close> exactly on a status other than 200.\<close>

lemma reasoning_stage_None:
  assumes "post (deepseek_request prompt hist) = (status, body, lines)"
  shows "fst (get_deepseek_reasoning_stream post loads prompt hist w) = Inr None
           \<longleftrightarrow> status \<noteq> 200"
  using assms
  by (auto simp: get_deepseek_reasoning_stream_def requests_post_def Let_def
        split: prod.splits sum.splits)

lemma answer_stage_None:
  assumes "post (openai_request prompt r hist) = (status, body, lines)"
  shows "fst (get_openai_answer_stream post loads prompt r hist w) = Inr None
           \<longleftrightarrow> status \<noteq> 200"
  using assms
  by (auto simp: get_openai_answer_stream_def requests_post_def Let_def
        split: prod.splits sum.splits)

lemma process_question_reasoning_None:
  assumes "get_deepseek_reasoning_stream post loads q (Some h)
             (py_print (PrintStr (''\<newline>Question: '' @ q)) w) = (Inr None, wa)"
  shows "process_question post loads q h w =
           (Inr False, h, py_print (PrintStr ''Failed to get reasoning content from DeepSeek.'') wa)"
  using assms by (simp add: process_question_def)

lemma process_question_answer_None:
  assumes "get_deepseek_reasoning_stream post loads q (Some h)
             (py_print (PrintStr (''\<newline>Question: '' @ q)) w) = (Inr (Some r), wa)"
    and "get_openai_answer_stream post loads q r (Some h) wa = (Inr None, wb)"
  shows "process_question post loads q h w =
           (Inr False, h, py_print (PrintStr ''Failed to get answer from OpenAI.'') wb)"
  using assms by (simp add: process_question_def)

lemma process_question_both:
  assumes "get_deepseek_reasoning_stream post loads q (Some h)
             (py_print (PrintStr (''\<newline>Question: '' @ q)) w) = (Inr (Some r), wa)"
    and "get_openai_answer_stream post loads q r (Some h) wa = (Inr (Some a), wb)"
  shows "process_question post loads q h w = (Inr True, add_interaction h q r a wb)"
  using assms by (simp add: process_question_def split: prod.splits)

lemma process_question_True:
  assumes "fst (process_question post loads q h w) = Inr True"
  shows "\<exists>r a wa wb.
           get_deepseek_reasoning_stream post loads q (Some h)
             (py_print (PrintStr (''\<newline>Question: '' @ q)) w) = (Inr (Some r), wa)
           \<and> get_openai_answer_stream post loads q r (Some h) wa = (Inr (Some a), wb)
           \<and> snd (process_question post loads q h w) = add_interaction h q r a wb"
  using assms
  by (auto simp: process_question_def split: prod.splits sum.splits option.splits)

lemma process_question_not_True:
  assumes "fst (process_question post loads q h w) \<noteq> Inr True"
  shows "fst (snd (process_question post loads q h w)) = h"
  using assms
  by (auto simp: process_question_def split: prod.splits sum.splits option.splits)

text \<open>The two stages on sample streams, for any request and world.\<close>

lemma sample_reasoning_run:
  assumes reply: "post (deepseek_request q hist) = (200, body, [line_ra, line_done])"
  shows "get_deepseek_reasoning_stream post sample_loads q hist w =
           (Inr (Some ''a''),
            leave_response
              \<lparr>status_code = 200, resp_text = body, iter_lines = [], close_called = False\<rparr>
              (py_print (PrintStr ''\<newline>'')
                (shown ''a''
                  ((stage_world ''\<newline>DeepSeek reasoning content:'' (deepseek_request q hist) w)
                     \<lparr>ticks := Suc (ticks w)\<rparr>))))"
proof -
  let ?w0 = "stage_world ''\<newline>DeepSeek reasoning content:'' (deepseek_request q hist) w"
  let ?s = "reasoning_start\<lparr>last_reasoning_content_time := Some (clock ?w0 (ticks ?w0)),
              reasoning_content := reasoning_content reasoning_start @ ''a''\<rparr>"
  let ?w1 = "shown ''a'' (?w0\<lparr>ticks := Suc (ticks ?w0)\<rparr>)"
  have "reasoning_loop sample_loads [line_ra, line_done] reasoning_start ?w0
          = reasoning_loop sample_loads [line_done] ?s ?w1"
    by (simp only: reasoning_loop_ReasoningDelta [OF sample_lines(1) sample_events(1)])
  also have "\<dots> = (Inr (Break ?s), [], ?w1)"
    unfolding line_done_def by (rule reasoning_loop_done)
  finally have run: "reasoning_loop sample_loads [line_ra, line_done] reasoning_start ?w0
          = (Inr (Break ?s), [], ?w1)" .
  have "get_deepseek_reasoning_stream post sample_loads q hist w =
           (Inr (Some (reasoning_content (flow_state (Break ?s)))),
            leave_response
              \<lparr>status_code = 200, resp_text = body, iter_lines = [],
               close_called = reasoning_finished (flow_state (Break ?s))\<rparr>
              (py_print (PrintStr ''\<newline>'') ?w1))"
    using reply run by (rule reasoning_stage_200)
  then show ?thesis
    by (simp add: reasoning_start_def stage_world_def py_print_def)
qed

lemma sample_answer_run:
  assumes reply: "post (openai_request q r hist) = (200, body, [line_cx, line_done])"
  shows "get_openai_answer_stream post sample_loads q r hist w =
           (Inr (Some ''x''),
            leave_response
              \<lparr>status_code = 200, resp_text = body, iter_lines = [], close_called = False\<rparr>
              (py_print (PrintStr ''\<newline>'')
                (shown ''x'' (stage_world ''\<newline>GPT-4o Answer:'' (openai_request q r hist) w))))"
proof -
  let ?w0 = "stage_world ''\<newline>GPT-4o Answer:'' (openai_request q r hist) w"
  have "answer_loop sample_loads [line_cx, line_done] [] ?w0
          = answer_loop sample_loads [line_done] ([] @ ''x'') (shown ''x'' ?w0)"
    by (simp only: answer_loop_AnswerDelta [OF sample_lines(4) sample_events(2)])
  also have "\<dots> = (Inr (Break ([] @ ''x'')), [], shown ''x'' ?w0)"
    unfolding line_done_def by (rule answer_loop_done)
  finally have run: "answer_loop sample_loads [line_cx, line_done] [] ?w0
          = (Inr (Break ([] @ ''x'')), [], shown ''x'' ?w0)" .
  have "get_openai_answer_stream post sample_loads q r hist w =
           (Inr (Some (flow_state (Break ([] @ ''x'')))),
            leave_response
              \<lparr>status_code = 200, resp_text = body, iter_lines = [], close_called = False\<rparr>
              (py_print (PrintStr ''\<newline>'') (shown ''x'' ?w0)))"
    using reply run by (rule answer_stage_200)
  then show ?thesis by simp
qed

text \<open>
  C4: an interaction is added to the history if and only if both stages return a text.
  On a status other than 200 from the reasoning endpoint the round returns \<open>False\<close>, the
  history is unchanged and the only request posted is the reasoning request, so the answer
  stage was not invoked; on a status other than 200 from the answering endpoint the round
  returns \<open>False\<close> and the history is unchanged; when both stages return a text the round
  returns \<open>True\<close> with the history that \<open>add_interaction\<close> gives; a round returns \<open>True\<close>
  only in that case, and every other round (also one in which a stage raises) leaves the
  history as it was.
\<close>

theorem round_commits_after_both_stages:
  "(post (deepseek_request q (Some h)) = (status, body, lines) \<and> status \<noteq> 200 \<longrightarrow>
      fst (process_question post loads q h w) = Inr False
      \<and> fst (snd (process_question post loads q h w)) = h
      \<and> posted (snd (snd (process_question post loads q h w)))
          = posted w @ [deepseek_request q (Some h)])
   \<and> (get_deepseek_reasoning_stream post loads q (Some h)
         (py_print (PrintStr (''\<newline>Question: '' @ q)) w) = (Inr (Some r), wa)
      \<and> post (openai_request q r (Some h)) = (status, body, lines) \<and> status \<noteq> 200 \<longrightarrow>
      fst (process_question post loads q h w) = Inr False
      \<and> fst (snd (process_question post loads q h w)) = h)
   \<and> (get_deepseek_reasoning_stream post loads q (Some h)
         (py_print (PrintStr (''\<newline>Question: '' @ q)) w) = (Inr (Some r), wa)
      \<and> get_openai_answer_stream post loads q r (Some h) wa = (Inr (Some a), wb) \<longrightarrow>
      process_question post loads q h w = (Inr True, add_interaction h q r a wb))
   \<and> (fst (process_question post loads q h w) = Inr True \<longrightarrow>
      (\<exists>r a wa wb.
         get_deepseek_reasoning_stream post loads q (Some h)
           (py_print (PrintStr (''\<newline>Question: '' @ q)) w) = (Inr (Some r), wa)
         \<and> get_openai_answer_stream post loads q r (Some h) wa = (Inr (Some a), wb)
         \<and> snd (process_question post loads q h w) = add_interaction h q r a wb))
   \<and> (fst (process_question post loads q h w) \<noteq> Inr True \<longrightarrow>
      fst (snd (process_question post loads q h w)) = h)"
proof (intro conjI impI; (elim conjE)?)
  let ?w0 = "py_print (PrintStr (''\<newline>Question: '' @ q)) w"
  assume reply: "post (deepseek_request q (Some h)) = (status, body, lines)"
    and st: "status \<noteq> 200"
  from reply st have "get_deepseek_reasoning_stream post loads q (Some h) ?w0 =
           (Inr None,
            leave_response
              \<lparr>status_code = status, resp_text = body, iter_lines = lines, close_called = False\<rparr>
              (py_print (PrintStr body)
                (py_print (PrintApiError ''DeepSeek'' status)
                  (stage_world ''\<newline>DeepSeek reasoning content:''
                     (deepseek_request q (Some h)) ?w0))))"
    by (rule reasoning_stage_failed)
  then have pq: "process_question post loads q h w =
           (Inr False, h, py_print (PrintStr ''Failed to get reasoning content from DeepSeek.'')
            (leave_response
              \<lparr>status_code = status, resp_text = body, iter_lines = lines, close_called = False\<rparr>
              (py_print (PrintStr body)
                (py_print (PrintApiError ''DeepSeek'' status)
                  (stage_world ''\<newline>DeepSeek reasoning content:''
                     (deepseek_request q (Some h)) ?w0)))))"
    by (rule process_question_reasoning_None)
  show "fst (process_question post loads q h w) = Inr False"
    and "fst (snd (process_question post loads q h w)) = h"
    and "posted (snd (snd (process_question post loads q h w)))
          = posted w @ [deepseek_request q (Some h)]"
    by (simp_all add: pq py_print_def leave_response_def stage_world_def)
next
  assume R: "get_deepseek_reasoning_stream post loads q (Some h)
         (py_print (PrintStr (''\<newline>Question: '' @ q)) w) = (Inr (Some r), wa)"
    and reply: "post (openai_request q r (Some h)) = (status, body, lines)"
    and st: "status \<noteq> 200"
  from reply st have "get_openai_answer_stream post loads q r (Some h) wa =
           (Inr None,
            leave_response
              \<lparr>status_code = status, resp_text = body, iter_lines = lines, close_called = False\<rparr>
              (py_print (PrintStr body)
                (py_print (PrintApiError ''OpenAI'' status)
                  (stage_world ''\<newline>GPT-4o Answer:'' (openai_request q r (Some h)) wa))))"
    by (rule answer_stage_failed)
  with R have pq: "process_question post loads q h w =
           (Inr False, h, py_print (PrintStr ''Failed to get answer from OpenAI.'')
             (leave_response
              \<lparr>status_code = status, resp_text = body, iter_lines = lines, close_called = False\<rparr>
              (py_print (PrintStr body)
                (py_print (PrintApiError ''OpenAI'' status)
                  (stage_world ''\<newline>GPT-4o Answer:'' (openai_request q r (Some h)) wa)))))"
    by (rule process_question_answer_None)
  show "fst (process_question post loads q h w) = Inr False"
    and "fst (snd (process_question post loads q h w)) = h"
    by (simp_all add: pq)
next
  assume "get_deepseek_reasoning_stream post loads q (Some h)
         (py_print (PrintStr (''\<newline>Question: '' @ q)) w) = (Inr (Some r), wa)"
    and "get_openai_answer_stream post loads q r (Some h) wa = (Inr (Some a), wb)"
  then show "process_question post loads q h w = (Inr True, add_interaction h q r a wb)"
    by (rule process_question_both)
next
  assume "fst (process_question post loads q h w) = Inr True"
  then show "\<exists>r a wa wb.
         get_deepseek_reasoning_stream post loads q (Some h)
           (py_print (PrintStr (''\<newline>Question: '' @ q)) w) = (Inr (Some r), wa)
         \<and> get_openai_answer_stream post loads q r (Some h) wa = (Inr (Some a), wb)
         \<and> snd (process_question post loads q h w) = add_interaction h q r a wb"
    by (rule process_question_True)
next
  assume "fst (process_question post loads q h w) \<noteq> Inr True"
  then show "fst (snd (process_question post loads q h w)) = h"
    by (rule process_question_not_True)
qed

theorem round_commits_after_both_stages_witness:
  "fst (process_question (endpoints (500, ''down'', []) (200, [], [line_cx, line_done]))
          sample_loads ''q'' (init_history 100) world0) = Inr False
   \<and> fst (snd (process_question (endpoints (500, ''down'', []) (200, [], [line_cx, line_done]))
          sample_loads ''q'' (init_history 100) world0)) = init_history 100
   \<and> posted (snd (snd (process_question
          (endpoints (500, ''down'', []) (200, [], [line_cx, line_done]))
          sample_loads ''q'' (init_history 100) world0)))
       = [deepseek_request ''q'' (Some (init_history 100))]
   \<and> fst (process_question (endpoints (200, [], [line_ra, line_done]) (503, ''busy'', []))
          sample_loads ''q'' (init_history 100) world0) = Inr False
   \<and> fst (snd (process_question (endpoints (200, [], [line_ra, line_done]) (503, ''busy'', []))
          sample_loads ''q'' (init_history 100) world0)) = init_history 100
   \<and> fst (process_question
          (endpoints (200, [], [line_ra, line_done]) (200, [], [line_cx, line_done]))
          sample_loads ''q'' (init_history 100) world0) = Inr True
   \<and> history (fst (snd (process_question
          (endpoints (200, [], [line_ra, line_done]) (200, [], [line_cx, line_done]))
          sample_loads ''q'' (init_history 100) world0)))
       = [\<lparr>user_query = ''q'', reasoning = ''a'', ai_response = ''x'', timestamp = 1\<rparr>]"
proof -
  let ?h = "init_history 100"
  let ?w0 = "py_print (PrintStr (''\<newline>Question: '' @ ''q'')) world0"
  let ?wa = "\<lambda>body. leave_response
              \<lparr>status_code = 200, resp_text = body, iter_lines = [], close_called = False\<rparr>
              (py_print (PrintStr ''\<newline>'')
                (shown ''a''
                  ((stage_world ''\<newline>DeepSeek reasoning content:''
                      (deepseek_request ''q'' (Some ?h)) ?w0)
                     \<lparr>ticks := Suc (ticks ?w0)\<rparr>)))"
  let ?wb = "leave_response
              \<lparr>status_code = 200, resp_text = [], iter_lines = [], close_called = False\<rparr>
              (py_print (PrintStr ''\<newline>'')
                (shown ''x'' (stage_world ''\<newline>GPT-4o Answer:''
                   (openai_request ''q'' ''a'' (Some ?h)) (?wa []))))"
  let ?fail = "endpoints (500, ''down'', []) (200, [], [line_cx, line_done])"
  let ?half = "endpoints (200, [], [line_ra, line_done]) (503, ''busy'', [])"
  let ?good = "endpoints (200, [], [line_ra, line_done]) (200, [], [line_cx, line_done])"
  have p0: "posted world0 = []" by (simp add: world0_def)
  have one: "fst (process_question ?fail sample_loads ''q'' ?h world0) = Inr False
      \<and> fst (snd (process_question ?fail sample_loads ''q'' ?h world0)) = ?h
      \<and> posted (snd (snd (process_question ?fail sample_loads ''q'' ?h world0)))
          = [deepseek_request ''q'' (Some ?h)]"
    using round_commits_after_both_stages [where post = ?fail and q = "''q''" and h = ?h
        and status = 500 and body = "''down''" and lines = "[]" and loads = sample_loads
        and w = world0]
    by (simp add: endpoints_reasoning p0)
  have Rhalf: "get_deepseek_reasoning_stream ?half sample_loads ''q'' (Some ?h) ?w0
                 = (Inr (Some ''a''), ?wa [])"
    by (rule sample_reasoning_run) (simp add: endpoints_reasoning)
  have two: "fst (process_question ?half sample_loads ''q'' ?h world0) = Inr False
      \<and> fst (snd (process_question ?half sample_loads ''q'' ?h world0)) = ?h"
    using round_commits_after_both_stages [where post = ?half and q = "''q''" and h = ?h
        and status = 503 and body = "''busy''" and lines = "[]" and loads = sample_loads
        and w = world0 and r = "''a''" and wa = "?wa []"] Rhalf
    by (simp add: endpoints_answer)
  have Rgood: "get_deepseek_reasoning_stream ?good sample_loads ''q'' (Some ?h) ?w0
                 = (Inr (Some ''a''), ?wa [])"
    by (rule sample_reasoning_run) (simp add: endpoints_reasoning)
  have Agood: "get_openai_answer_stream ?good sample_loads ''q'' ''a'' (Some ?h) (?wa [])
                 = (Inr (Some ''x''), ?wb)"
    by (rule sample_answer_run) (simp add: endpoints_answer)
  have "process_question ?good sample_loads ''q'' ?h world0
          = (Inr True, add_interaction ?h ''q'' ''a'' ''x'' ?wb)"
    using round_commits_after_both_stages [where post = ?good and q = "''q''" and h = ?h
        and loads = sample_loads and w = world0 and r = "''a''" and wa = "?wa []"
        and a = "''x''" and wb = ?wb] Rgood Agood
    by blast
  moreover have "history (fst (add_interaction ?h ''q'' ''a'' ''x'' ?wb))
       = [\<lparr>user_query = ''q'', reasoning = ''a'', ai_response = ''x'', timestamp = 1\<rparr>]"
    by (simp add: add_interaction_def time_time_def init_history_def leave_response_def
          py_print_def shown_def stage_world_def world0_def)
  ultimately have three: "fst (process_question ?good sample_loads ''q'' ?h world0) = Inr True
      \<and> history (fst (snd (process_question ?good sample_loads ''q'' ?h world0)))
       = [\<lparr>user_query = ''q'', reasoning = ''a'', ai_response = ''x'', timestamp = 1\<rparr>]"
    by simp
  from one two three show ?thesis by blast
qed

section \<open>The bound of the history\<close>

text \<open>
  With a capacity of at least one, and a history within it, the history stays within the
  capacity and holds the most recent interactions in the order they were added
  (\<open>history_bounded\<close>, \<open>history_fifo\<close> above).  With the capacity zero the slice
  \<open>history[-0:]\<close> is the whole list, and nothing is ever removed.
\<close>

lemma add_interaction_zero:
  assumes "max_history h = 0"
  shows "add_interaction h q r a w =
           (h\<lparr>history := history h @ [\<lparr>user_query = q, reasoning = r, ai_response = a,
                                         timestamp = clock w (ticks w)\<rparr>]\<rparr>,
            w\<lparr>ticks := Suc (ticks w)\<rparr>)"
  using assms by (simp add: add_interaction_def time_time_def slice_from_def)

lemma commit_all_zero:
  assumes "max_history h = 0"
  shows "fst (commit_all cs h w) = h\<lparr>history := history h @ turns_made (clock w) (ticks w) cs\<rparr>"
  using assms
proof (induction cs arbitrary: h w)
  case Nil
  then show ?case by simp
next
  case (Cons c cs)
  obtain q r a where c: "c = (q, r, a)" by (cases c)
  let ?h' = "h\<lparr>history := history h @ [\<lparr>user_query = q, reasoning = r, ai_response = a,
                                         timestamp = clock w (ticks w)\<rparr>]\<rparr>"
  have "max_history ?h' = 0" using Cons.prems by simp
  then have "fst (commit_all cs ?h' (w\<lparr>ticks := Suc (ticks w)\<rparr>))
               = ?h'\<lparr>history := history ?h' @ turns_made (clock w) (Suc (ticks w)) cs\<rparr>"
    using Cons.IH [of ?h' "w\<lparr>ticks := Suc (ticks w)\<rparr>"] by simp
  then show ?case
    by (simp add: c add_interaction_zero [OF Cons.prems])
qed

text \<open>
  C3, at the capacity zero: after two calls of \<open>add_interaction\<close> on an empty history of
  capacity zero the history holds both interactions, so its length exceeds the capacity.
\<close>

theorem history_grows_at_capacity_zero:
  "max_history (init_history 0) = 0
   \<and> history (fst (commit_all [(''q1'', ''r1'', ''a1''), (''q2'', ''r2'', ''a2'')]
                     (init_history 0) world0))
       = [\<lparr>user_query = ''q1'', reasoning = ''r1'', ai_response = ''a1'', timestamp = 0\<rparr>,
          \<lparr>user_query = ''q2'', reasoning = ''r2'', ai_response = ''a2'', timestamp = 1\<rparr>]
   \<and> length (history (fst (commit_all [(''q1'', ''r1'', ''a1''), (''q2'', ''r2'', ''a2'')]
                     (init_history 0) world0))) = 2"
  by (simp add: init_history_def add_interaction_def time_time_def slice_from_def world0_def)

end
